theory Spec2Isabelle
  imports Complex_Main "HOL-Library.Word" "HOL-Library.AList"
begin

unbundle bit_operations_syntax

section \<open>The per-neighbor session core of server/peer.go\<close>

text \<open>
  A shallow embedding of \<^verbatim>\<open>server/peer.go\<close>. The Go struct \<^verbatim>\<open>Peer\<close> becomes a record
  that every handler takes and returns; a \<^verbatim>\<open>log.Fatal\<close> or a panic is an error value;
  a buffered channel is the queue of the messages handed to it, a blocking send being
  the append at its end. \<^verbatim>\<open>time.Now()\<close> is an argument of the handlers, in nanoseconds
  since the epoch. \<^verbatim>\<open>connectLoop\<close>, which dials the neighbor, is not part of the model.
\<close>

subsection \<open>Types of the collaborating packages\<close>

type_synonym RouteFamily = "32 word"

text \<open>\<^verbatim>\<open>net.IP\<close> is a byte slice of length 4 or 16.\<close>

type_synonym IP = "8 word list"

datatype FSMState =
    BGP_FSM_IDLE
  | BGP_FSM_CONNECT
  | BGP_FSM_ACTIVE
  | BGP_FSM_OPENSENT
  | BGP_FSM_OPENCONFIRM
  | BGP_FSM_ESTABLISHED

datatype AdminState = ADMIN_STATE_UP | ADMIN_STATE_DOWN

datatype DefaultPolicyType = DEFAULT_POLICY_TYPE_ACCEPT_ROUTE | DEFAULT_POLICY_TYPE_REJECT_ROUTE

datatype RouteType = ROUTE_TYPE_NONE | ROUTE_TYPE_ACCEPT | ROUTE_TYPE_REJECT

datatype error = Fatal string | Panic string

record PeerInfo =
  AS :: "32 word"
  ID :: IP
  LocalID :: IP
  Address :: IP

text \<open>
  \<^verbatim>\<open>table.Path\<close> is an interface; the record holds what its methods return
  (spec, data model: route-family, NLRI, attributes, nexthop, isWithdraw, origin PeerInfo).
\<close>

record Path =
  GetRouteFamily :: RouteFamily
  getPrefix :: string
  getPathAttrs :: "8 word list"
  GetNexthop :: IP
  IsWithdraw :: bool
  getSource :: PeerInfo

text \<open>
  \<^verbatim>\<open>policy.Policy\<close>: the matching engine is a collaborator, so a policy is its name and
  its \<^verbatim>\<open>Apply\<close> method, which returns (matched, action, new path).
\<close>

record Policy =
  Name :: string
  Apply :: "Path \<Rightarrow> bool \<times> RouteType \<times> Path"

text \<open>
  Capabilities of an OPEN (package packet, outside src): a decoded capability is a tagged
  union, and the decoder gives each variant its code, so the type assertion of line 187
  on a capability whose code is \<^verbatim>\<open>BGP_CAP_MULTIPROTOCOL\<close> cannot fail.
\<close>

datatype BGPCapabilityCode =
    BGP_CAP_MULTIPROTOCOL
  | BGP_CAP_ROUTE_REFRESH
  | BGP_CAP_FOUR_OCTET_AS_NUMBER
  | BGP_CAP_OTHER "8 word"

datatype Capability =
    CapMultiProtocol "16 word" "8 word"
  | CapRouteRefresh
  | CapFourOctetASNumber "32 word"
  | CapUnknown "8 word" "8 word list"

fun Code :: "Capability \<Rightarrow> BGPCapabilityCode" where
  "Code (CapMultiProtocol afi safi) = BGP_CAP_MULTIPROTOCOL"
| "Code CapRouteRefresh = BGP_CAP_ROUTE_REFRESH"
| "Code (CapFourOctetASNumber asn) = BGP_CAP_FOUR_OCTET_AS_NUMBER"
| "Code (CapUnknown c v) = BGP_CAP_OTHER c"

datatype OptionParameter =
    OptionParameterCapability "Capability list"
  | OptionParameterUnknown "8 word" "8 word list"

record BGPOpen =
  HoldTime :: "16 word"
  OpenID :: IP
  OptParams :: "OptionParameter list"

text \<open>
  Modelled from the spec: the wire codec (package packet) and the conversions between
  UPDATE messages and paths (package table) are not under src, and the spec leaves the
  encoding out. An UPDATE body is represented by the paths it announces or withdraws and
  by whether its AS-path attributes are in 2-octet form (spec 4.4: "rewrite AS-path
  attributes to 2-octet form"; spec 4.3: "normalize 4-byte AS attributes").
\<close>

record BGPUpdate =
  UpdatePaths :: "Path list"
  TwoOctetAS :: bool

definition UpdatePathAttrs2ByteAs :: "BGPUpdate \<Rightarrow> BGPUpdate" where
  "UpdatePathAttrs2ByteAs body = body\<lparr>TwoOctetAS := True\<rparr>"

definition UpdatePathAttrs4ByteAs :: "BGPUpdate \<Rightarrow> BGPUpdate" where
  "UpdatePathAttrs4ByteAs body = body\<lparr>TwoOctetAS := False\<rparr>"

text \<open>
  A decoded message is a sum type: \<^verbatim>\<open>m.Header.Type\<close> is the constructor and \<^verbatim>\<open>m.Body\<close>
  its argument (spec 9, dynamic message dispatch).
\<close>

datatype BGPMessage =
    BGP_MSG_OPEN BGPOpen
  | BGP_MSG_UPDATE BGPUpdate
  | BGP_MSG_NOTIFICATION "8 word" "8 word" "8 word list"
  | BGP_MSG_KEEPALIVE
  | BGP_MSG_ROUTE_REFRESH "16 word" "8 word"

definition NewBGPNotificationMessage :: "8 word \<Rightarrow> 8 word \<Rightarrow> 8 word list \<Rightarrow> BGPMessage" where
  "NewBGPNotificationMessage typeCode subTypeCode data = BGP_MSG_NOTIFICATION typeCode subTypeCode data"

text \<open>NOTIFICATION codes of RFC 4271 and RFC 4486 used by peer.go.\<close>

definition BGP_ERROR_CEASE :: "8 word" where
  "BGP_ERROR_CEASE = 6"

definition BGP_ERROR_SUB_ADMINISTRATIVE_SHUTDOWN :: "8 word" where
  "BGP_ERROR_SUB_ADMINISTRATIVE_SHUTDOWN = 2"

definition BGP_ERROR_SUB_PEER_DECONFIGURED :: "8 word" where
  "BGP_ERROR_SUB_PEER_DECONFIGURED = 3"

definition BGP_ERROR_SUB_ADMINISTRATIVE_RESET :: "8 word" where
  "BGP_ERROR_SUB_ADMINISTRATIVE_RESET = 4"

record MessageError =
  TypeCode :: "8 word"
  SubTypeCode :: "8 word"
  ErrData :: "8 word list"

text \<open>
  Modelled from the spec: \<^verbatim>\<open>bgp.AfiSafiToRouteFamily\<close> is not under src. The glossary
  calls a route family an AFI/SAFI pair held in a 32-bit key: the AFI in the upper half,
  the SAFI in the lowest byte.
\<close>

definition AfiSafiToRouteFamily :: "16 word \<Rightarrow> 8 word \<Rightarrow> RouteFamily" where
  "AfiSafiToRouteFamily afi safi = push_bit 16 (ucast afi) OR ucast safi"

text \<open>
  \<^verbatim>\<open>net.IP.Equal\<close> of the Go standard library: an IPv4 address and its 16-byte
  IPv4-in-IPv6 form are equal.
\<close>

definition v4InV6Prefix :: "8 word list" where
  "v4InV6Prefix = [0, 0, 0, 0, 0, 0, 0, 0, 0, 0, 255, 255]"

definition IP_Equal :: "IP \<Rightarrow> IP \<Rightarrow> bool" where
  "IP_Equal ip x =
     (if length ip = length x then ip = x
      else if length ip = 4 \<and> length x = 16 then take 12 x = v4InV6Prefix \<and> ip = drop 12 x
      else if length ip = 16 \<and> length x = 4 then take 12 ip = v4InV6Prefix \<and> drop 12 ip = x
      else False)"

subsection \<open>Configuration\<close>

text \<open>
  \<^verbatim>\<open>config.Global\<close> and \<^verbatim>\<open>config.Neighbor\<close> with the fields peer.go reads or writes; a
  nested struct with one or two fields is flattened (\<^verbatim>\<open>Timers.HoldTime\<close> is
  \<open>Timers_HoldTime\<close>). The \<^verbatim>\<open>float64\<close> timers hold finite configured numbers and are
  only compared and copied, so they are reals. The per-type message counters of
  \<^verbatim>\<open>BgpNeighborCommonState\<close> are written by the FSM Driver alone and are left out.
  \<^verbatim>\<open>State\<close> holds \<^verbatim>\<open>uint32(bgp.FSMState)\<close>; peer.go only compares it with ESTABLISHED and
  ACTIVE, so the zero value of the field is represented by IDLE.
\<close>

record BgpNeighborCommonState =
  State :: FSMState
  Uptime :: int
  Downtime :: int
  UpdateRecvTime :: int
  Flops :: "32 word"
  EstablishedCount :: "32 word"

definition BgpNeighborCommonState_zero :: BgpNeighborCommonState where
  "BgpNeighborCommonState_zero =
     \<lparr>State = BGP_FSM_IDLE, Uptime = 0, Downtime = 0, UpdateRecvTime = 0, Flops = 0,
      EstablishedCount = 0\<rparr>"

record Global =
  As :: "32 word"
  RouterId :: IP

record Neighbor =
  NeighborAddress :: IP
  PeerAs :: "32 word"
  AfiSafiList :: "string list"
  Timers_HoldTime :: real
  Timers_ConnectRetry :: real
  Timers_IdleHoldTimeAfterReset :: real
  TransportOptions_PassiveMode :: bool
  RouteServer_RouteServerClient :: bool
  ApplyPolicy_ImportPolicies :: "string list"
  ApplyPolicy_ExportPolicies :: "string list"
  LocalAddress :: IP
  BgpNeighborCommonState :: BgpNeighborCommonState

subsection \<open>Adj-RIB\<close>

text \<open>
  Modelled from the spec: \<^verbatim>\<open>table.AdjRib\<close> is not under src. Spec 3: "two ordered sets of
  paths per route-family (IN from this peer, OUT to this peer)"; spec 4.3: "apply it to
  Adj-RIB-In (add non-withdrawals, remove withdrawals)"; spec 3: "the Adj-RIB-In is fully
  dropped". A table holds at most one path per NLRI: an announcement replaces the path
  of its NLRI, a withdrawal removes it.
\<close>

record AdjRib =
  adjRibIn :: "RouteFamily \<Rightarrow> Path list"
  adjRibOut :: "RouteFamily \<Rightarrow> Path list"

definition NewAdjRib :: "RouteFamily list \<Rightarrow> AdjRib" where
  "NewAdjRib rfList = \<lparr>adjRibIn = (\<lambda>rf. []), adjRibOut = (\<lambda>rf. [])\<rparr>"

fun AdjRib_update :: "(RouteFamily \<Rightarrow> Path list) \<Rightarrow> Path list \<Rightarrow> (RouteFamily \<Rightarrow> Path list)" where
  "AdjRib_update rib [] = rib"
| "AdjRib_update rib (path # pathList) =
     (let rf = GetRouteFamily path;
          others = filter (\<lambda>q. getPrefix q \<noteq> getPrefix path) (rib rf)
      in AdjRib_update (rib(rf := (if IsWithdraw path then others else others @ [path]))) pathList)"

definition AdjRib_UpdateIn :: "Path list \<Rightarrow> AdjRib \<Rightarrow> AdjRib" where
  "AdjRib_UpdateIn pathList adj = adj\<lparr>adjRibIn := AdjRib_update (adjRibIn adj) pathList\<rparr>"

definition AdjRib_UpdateOut :: "Path list \<Rightarrow> AdjRib \<Rightarrow> AdjRib" where
  "AdjRib_UpdateOut pathList adj = adj\<lparr>adjRibOut := AdjRib_update (adjRibOut adj) pathList\<rparr>"

definition GetInPathList :: "AdjRib \<Rightarrow> RouteFamily \<Rightarrow> Path list" where
  "GetInPathList adj rf = adjRibIn adj rf"

definition GetOutPathList :: "AdjRib \<Rightarrow> RouteFamily \<Rightarrow> Path list" where
  "GetOutPathList adj rf = adjRibOut adj rf"

definition GetInCount :: "AdjRib \<Rightarrow> RouteFamily \<Rightarrow> nat" where
  "GetInCount adj rf = length (adjRibIn adj rf)"

definition GetOutCount :: "AdjRib \<Rightarrow> RouteFamily \<Rightarrow> nat" where
  "GetOutCount adj rf = length (adjRibOut adj rf)"

definition DropAllIn :: "RouteFamily \<Rightarrow> AdjRib \<Rightarrow> AdjRib" where
  "DropAllIn rf adj = adj\<lparr>adjRibIn := (adjRibIn adj)(rf := [])\<rparr>"

text \<open>
  Modelled from the spec: \<^verbatim>\<open>table.CreateUpdateMsgFromPaths\<close> and
  \<^verbatim>\<open>table.NewProcessMessage(m, peerInfo).ToPathList()\<close> are not under src. Spec 4.5:
  "convert the survivors to UPDATE messages", one message for each path, in order;
  spec 4.3: "convert the UPDATE into a path list tagged with this peer's PeerInfo".
\<close>

definition CreateUpdateMsgFromPaths :: "Path list \<Rightarrow> BGPMessage list" where
  "CreateUpdateMsgFromPaths pathList =
     map (\<lambda>p. BGP_MSG_UPDATE \<lparr>UpdatePaths = [p], TwoOctetAS = False\<rparr>) pathList"

definition ToPathList :: "BGPUpdate \<Rightarrow> PeerInfo \<Rightarrow> Path list" where
  "ToPathList body info = map (\<lambda>p. p\<lparr>getSource := info\<rparr>) (UpdatePaths body)"

subsection \<open>Messages between the actors\<close>

text \<open>
  A Go channel is a shared object: the sibling directory holds handles, and the queues
  they name live in a store.
\<close>

type_synonym chan = nat

record serverMsgDataPeer =
  address :: IP
  peerMsgCh :: chan

datatype peerMsg =
    PEER_MSG_PATH "Path list"
  | PEER_MSG_PEER_DOWN PeerInfo

datatype RequestType =
    REQ_LOCAL_RIB
  | REQ_GLOBAL_RIB
  | REQ_NEIGHBOR_SHUTDOWN
  | REQ_NEIGHBOR_RESET
  | REQ_NEIGHBOR_SOFT_RESET
  | REQ_NEIGHBOR_SOFT_RESET_IN
  | REQ_NEIGHBOR_SOFT_RESET_OUT
  | REQ_ADJ_RIB_IN
  | REQ_ADJ_RIB_OUT
  | REQ_NEIGHBOR_ENABLE
  | REQ_NEIGHBOR_DISABLE
  | REQ_OTHER

record RestRequest =
  RequestType :: RequestType
  RouteFamily :: RouteFamily

datatype serverMsg =
    SRV_MSG_PEER_ADDED serverMsgDataPeer
  | SRV_MSG_PEER_DELETED PeerInfo
  | SRV_MSG_API RestRequest
  | SRV_MSG_POLICY_UPDATED "string \<rightharpoonup> Policy"
  | SRV_MSG_OTHER

datatype fsmMsg =
    FSM_MSG_STATE_CHANGE FSMState
  | FSM_MSG_BGP_MESSAGE_MessageError MessageError
  | FSM_MSG_BGP_MESSAGE_BGPMessage BGPMessage
  | FSM_MSG_BGP_MESSAGE_unknown

subsection \<open>The FSM and the peer\<close>

text \<open>
  \<^verbatim>\<open>NewFSM(&g, &peer, p.connCh)\<close> hands the FSM a pointer to the local variable
  \<^verbatim>\<open>peer\<close> of \<^verbatim>\<open>NewPeer\<close>, while the struct literal of line 79 copies that variable into
  \<^verbatim>\<open>p.peerConfig\<close>: \<^verbatim>\<open>peer.peerConfig\<close> and \<^verbatim>\<open>peer.fsm.peerConfig\<close> are two objects. The
  FSM record owns its own (\<open>fsm_peerConfig\<close>). \<^verbatim>\<open>adminStateCh\<close> has capacity 1.
  Modelled from the spec: \<^verbatim>\<open>FSM.StateChange\<close> is not under src (spec 4.1: "record new
  state").
\<close>

record FSM =
  state :: FSMState
  adminState :: AdminState
  negotiatedHoldTime :: real
  idleHoldTime :: real
  fsm_peerConfig :: Neighbor
  adminStateCh :: "AdminState list"
  LocalAddr :: IP

definition StateChange :: "FSMState \<Rightarrow> FSM \<Rightarrow> FSM" where
  "StateChange nextState f = f\<lparr>state := nextState\<rparr>"

text \<open>
  \<open>outgoing\<close> is the queue of the messages handed to the channel and not yet taken by
  the FSM Driver; \<open>mailboxes\<close> is the store of the sibling mailboxes; \<open>connCh_closed\<close>
  and \<open>getActiveCh\<close> record \<^verbatim>\<open>close(peer.connCh)\<close> and the tokens sent to the Connect
  Loop. A Go map that is only looked up is a partial function; \<open>siblings\<close>, which is
  iterated, is an association list with one entry for each key.
\<close>

record 'rib Peer =
  globalConfig :: Global
  peerConfig :: Neighbor
  connCh_closed :: bool
  getActiveCh :: nat
  fsm :: FSM
  adjRib :: AdjRib
  rib :: 'rib
  isGlobalRib :: bool
  rfMap :: "RouteFamily \<rightharpoonup> bool"
  capMap :: "BGPCapabilityCode \<rightharpoonup> Capability"
  peerInfo :: PeerInfo
  siblings :: "(string \<times> serverMsgDataPeer) list"
  outgoing :: "BGPMessage list"
  importPolicies :: "Policy list"
  defaultImportPolicy :: DefaultPolicyType
  exportPolicies :: "Policy list"
  defaultExportPolicy :: DefaultPolicyType
  mailboxes :: "chan \<Rightarrow> peerMsg list"

text \<open>
  The collaborators whose behaviour the spec leaves open are arguments of the handlers,
  gathered in one record: \<^verbatim>\<open>bgp.GetRouteFamily\<close> (the key it returns; both callers drop
  its error), \<^verbatim>\<open>net.IP.String\<close>, \<^verbatim>\<open>bgp.ValidateUpdateMsg\<close> (its error, if any),
  \<^verbatim>\<open>table.CloneAndUpdatePathAttrs\<close>, the shared RIB \<^verbatim>\<open>table.TableManager\<close> and \<^verbatim>\<open>NewFSM\<close>
  of fsm.go.
\<close>

record 'rib collaborators =
  bgp_GetRouteFamily :: "string \<Rightarrow> RouteFamily"
  ip_String :: "IP \<Rightarrow> string"
  bgp_ValidateUpdateMsg :: "BGPUpdate \<Rightarrow> (RouteFamily \<rightharpoonup> bool) \<Rightarrow> MessageError option"
  table_CloneAndUpdatePathAttrs :: "Path list \<Rightarrow> Global \<Rightarrow> Neighbor \<Rightarrow> Path list"
  table_NewTableManager :: "string \<Rightarrow> RouteFamily list \<Rightarrow> 'rib"
  rib_ProcessPaths :: "'rib \<Rightarrow> Path list \<Rightarrow> Path list \<times> 'rib"
  rib_DeletePathsforPeer :: "'rib \<Rightarrow> PeerInfo \<Rightarrow> RouteFamily \<Rightarrow> Path list \<times> 'rib"
  rib_GetPathList :: "'rib \<Rightarrow> RouteFamily \<Rightarrow> Path list"
  server_NewFSM :: "Global \<Rightarrow> Neighbor \<Rightarrow> FSM"

subsection \<open>applyPolicies\<close>

text \<open>
  Lines 442-462. The Go function returns \<^verbatim>\<open>(bool, *table.Path)\<close>; the pointer is an
  option, \<^verbatim>\<open>nil\<close> being \<open>None\<close>.
\<close>

fun applyPolicies :: "Policy list \<Rightarrow> Path \<Rightarrow> bool \<times> Path option" where
  "applyPolicies [] original = (False, Some original)"
| "applyPolicies (pol # policies) original =
     (case Apply pol original of
        (result, action, newpath) \<Rightarrow>
          if result then
            (if action = ROUTE_TYPE_REJECT then (True, None) else (True, Some newpath))
          else applyPolicies policies original)"

subsection \<open>Helpers of the handlers\<close>

text \<open>Lines 148-155.\<close>

definition configuredRFlist :: "'rib collaborators \<Rightarrow> 'rib Peer \<Rightarrow> RouteFamily list" where
  "configuredRFlist ext peer = map (bgp_GetRouteFamily ext) (AfiSafiList (peerConfig peer))"

text \<open>
  \<^verbatim>\<open>for _, s := range peer.siblings { s.peerMsgCh <- pm }\<close> (lines 165-167 and 678-680):
  one send for each entry of the directory. Every entry gets the same message, so the
  queues that result do not depend on the order in which Go visits the map.
\<close>

fun sendToSiblings :: "peerMsg \<Rightarrow> (string \<times> serverMsgDataPeer) list \<Rightarrow> (chan \<Rightarrow> peerMsg list) \<Rightarrow> (chan \<Rightarrow> peerMsg list)" where
  "sendToSiblings pm [] mb = mb"
| "sendToSiblings pm ((k, s) # rest) mb =
     sendToSiblings pm rest (mb(peerMsgCh s := mb (peerMsgCh s) @ [pm]))"

text \<open>Lines 157-168.\<close>

definition sendPathsToSiblings :: "Path list \<Rightarrow> 'rib Peer \<Rightarrow> 'rib Peer" where
  "sendPathsToSiblings pathList peer =
     (if length pathList = 0 then peer
      else peer\<lparr>mailboxes := sendToSiblings (PEER_MSG_PATH pathList) (siblings peer) (mailboxes peer)\<rparr>)"

text \<open>
  Lines 263-285. The state test comes first, so outside ESTABLISHED a message of any
  type is skipped; in ESTABLISHED a message that is not an UPDATE ends the process.
\<close>

fun sendMessages :: "BGPMessage list \<Rightarrow> 'rib Peer \<Rightarrow> error + 'rib Peer" where
  "sendMessages [] peer = Inr peer"
| "sendMessages (m # msgs) peer =
     (if State (BgpNeighborCommonState (peerConfig peer)) \<noteq> BGP_FSM_ESTABLISHED then
        sendMessages msgs peer
      else
        (case m of
           BGP_MSG_UPDATE body \<Rightarrow>
             (let m' = (if capMap peer BGP_CAP_FOUR_OCTET_AS_NUMBER = None
                        then BGP_MSG_UPDATE (UpdatePathAttrs2ByteAs body) else m)
              in sendMessages msgs (peer\<lparr>outgoing := outgoing peer @ [m']\<rparr>))
         | _ \<Rightarrow> Inl (Fatal ''not update message'')))"

subsection \<open>handleBGPmessage\<close>

text \<open>
  Lines 182-192: the capabilities of the OPEN, folded over \<open>(capMap, r)\<close>, where \<open>r\<close>
  is the set of the families the remote advertises.
\<close>

fun open_capabilities ::
  "Capability list \<Rightarrow> (BGPCapabilityCode \<rightharpoonup> Capability) \<times> (RouteFamily \<rightharpoonup> bool) \<Rightarrow>
     (BGPCapabilityCode \<rightharpoonup> Capability) \<times> (RouteFamily \<rightharpoonup> bool)" where
  "open_capabilities [] (cm, r) = (cm, r)"
| "open_capabilities (c # cs) (cm, r) =
     open_capabilities cs
       (cm(Code c \<mapsto> c),
        (case c of
           CapMultiProtocol afi safi \<Rightarrow> r(AfiSafiToRouteFamily afi safi \<mapsto> True)
         | _ \<Rightarrow> r))"

fun open_optParams ::
  "OptionParameter list \<Rightarrow> (BGPCapabilityCode \<rightharpoonup> Capability) \<times> (RouteFamily \<rightharpoonup> bool) \<Rightarrow>
     (BGPCapabilityCode \<rightharpoonup> Capability) \<times> (RouteFamily \<rightharpoonup> bool)" where
  "open_optParams [] acc = acc"
| "open_optParams (OptionParameterCapability caps # ps) acc =
     open_optParams ps (open_capabilities caps acc)"
| "open_optParams (OptionParameterUnknown t v # ps) acc = open_optParams ps acc"

text \<open>
  Lines 194-198: every key of \<open>rfMap\<close> that is not a key of \<open>r\<close> is deleted. Go allows
  the deletion during the iteration, and the map that results is the same for every
  order of visit.
\<close>

definition open_deleteUnadvertised :: "(RouteFamily \<rightharpoonup> bool) \<Rightarrow> (RouteFamily \<rightharpoonup> bool) \<Rightarrow> (RouteFamily \<rightharpoonup> bool)" where
  "open_deleteUnadvertised r m = (\<lambda>rf. if r rf = None then None else m rf)"

text \<open>Lines 200-204.\<close>

fun open_addConfigured :: "RouteFamily list \<Rightarrow> (RouteFamily \<rightharpoonup> bool) \<Rightarrow> (RouteFamily \<rightharpoonup> bool) \<Rightarrow> (RouteFamily \<rightharpoonup> bool)" where
  "open_addConfigured [] r m = m"
| "open_addConfigured (rf # rfs) r m =
     open_addConfigured rfs r (if r rf \<noteq> None then m(rf \<mapsto> True) else m)"

text \<open>Lines 211-217; \<^verbatim>\<open>float64(body.HoldTime)\<close> of a \<^verbatim>\<open>uint16\<close> is exact.\<close>

definition open_negotiateHoldTime :: "16 word \<Rightarrow> real \<Rightarrow> real" where
  "open_negotiateHoldTime remote myHoldTime =
     (let holdTime = real (unat remote)
      in if holdTime > myHoldTime then myHoldTime else holdTime)"

text \<open>Lines 170-261. \<^verbatim>\<open>time.Now().Unix()\<close> is \<open>now div 10^9\<close>.\<close>

definition Unix :: "int \<Rightarrow> int" where
  "Unix now = now div 1000000000"

definition handleBGPmessage :: "'rib collaborators \<Rightarrow> int \<Rightarrow> BGPMessage \<Rightarrow> 'rib Peer \<Rightarrow> error + 'rib Peer" where
  "handleBGPmessage ext now m peer =
     (case m of
        BGP_MSG_OPEN body \<Rightarrow>
          (let info = (peerInfo peer)\<lparr>ID := OpenID body\<rparr>;
               (cm, r) = open_optParams (OptParams body) (capMap peer, Map.empty);
               rfm = open_addConfigured (configuredRFlist ext peer) r
                       (open_deleteUnadvertised r (rfMap peer));
               f = (fsm peer)\<lparr>negotiatedHoldTime :=
                      open_negotiateHoldTime (HoldTime body)
                        (Timers_HoldTime (fsm_peerConfig (fsm peer)))\<rparr>
           in Inr (peer\<lparr>peerInfo := info, capMap := cm, rfMap := rfm, fsm := f\<rparr>))
      | BGP_MSG_ROUTE_REFRESH afi safi \<Rightarrow>
          (let rf = AfiSafiToRouteFamily afi safi
           in if rfMap peer rf = None then Inr peer
              else if capMap peer BGP_CAP_ROUTE_REFRESH \<noteq> None then
                sendMessages (CreateUpdateMsgFromPaths (GetOutPathList (adjRib peer) rf)) peer
              else Inr peer)
      | BGP_MSG_UPDATE body \<Rightarrow>
          (let peer1 = peer\<lparr>peerConfig := (peerConfig peer)\<lparr>BgpNeighborCommonState :=
                         (BgpNeighborCommonState (peerConfig peer))\<lparr>UpdateRecvTime := Unix now\<rparr>\<rparr>\<rparr>
           in case bgp_ValidateUpdateMsg ext body (rfMap peer1) of
                Some err \<Rightarrow>
                  (if TypeCode err \<noteq> 0 then
                     Inr (peer1\<lparr>outgoing := outgoing peer1 @
                            [NewBGPNotificationMessage (TypeCode err) (SubTypeCode err) (ErrData err)]\<rparr>)
                   else Inr peer1)
              | None \<Rightarrow>
                  (let pathList = ToPathList (UpdatePathAttrs4ByteAs body) (peerInfo peer1);
                       peer2 = peer1\<lparr>adjRib := AdjRib_UpdateIn pathList (adjRib peer1)\<rparr>
                   in Inr (sendPathsToSiblings pathList peer2)))
      | _ \<Rightarrow> Inr peer)"

subsection \<open>The route pipeline\<close>

text \<open>Lines 371-398: the export policy loop of \<^verbatim>\<open>sendUpdateMsgFromPaths\<close>.\<close>

fun exportLoop :: "Policy list \<Rightarrow> DefaultPolicyType \<Rightarrow> Path list \<Rightarrow> Path list \<Rightarrow> Path list" where
  "exportLoop policies dflt [] paths = paths"
| "exportLoop policies dflt (p # pList) paths =
     (if IsWithdraw p then exportLoop policies dflt pList (paths @ [p])
      else if length policies \<noteq> 0 then
        (case applyPolicies policies p of
           (applied, newPath) \<Rightarrow>
             if applied then
               (case newPath of
                  Some np \<Rightarrow> exportLoop policies dflt pList (paths @ [np])
                | None \<Rightarrow> exportLoop policies dflt pList paths)
             else if dflt = DEFAULT_POLICY_TYPE_ACCEPT_ROUTE then
               exportLoop policies dflt pList (paths @ [p])
             else exportLoop policies dflt pList paths)
      else exportLoop policies dflt pList (paths @ [p]))"

text \<open>Lines 402-416: the egress loop of \<^verbatim>\<open>sendUpdateMsgFromPaths\<close>.\<close>

fun egressLoop :: "(RouteFamily \<rightharpoonup> bool) \<Rightarrow> IP \<Rightarrow> Path list \<Rightarrow> Path list \<Rightarrow> Path list" where
  "egressLoop rfm neighborAddress [] sendpathList = sendpathList"
| "egressLoop rfm neighborAddress (p # paths) sendpathList =
     (let ok = (rfm (GetRouteFamily p) \<noteq> None);
          ok = (if IP_Equal neighborAddress (GetNexthop p) then False else ok)
      in egressLoop rfm neighborAddress paths (if ok then sendpathList @ [p] else sendpathList))"

text \<open>Lines 362-418.\<close>

definition sendUpdateMsgFromPaths :: "'rib collaborators \<Rightarrow> Path list \<Rightarrow> 'rib Peer \<Rightarrow> error + 'rib Peer" where
  "sendUpdateMsgFromPaths ext pList peer =
     (let pList' = table_CloneAndUpdatePathAttrs ext pList (globalConfig peer) (peerConfig peer);
          paths = exportLoop (exportPolicies peer) (defaultExportPolicy peer) pList' [];
          peer1 = peer\<lparr>adjRib := AdjRib_UpdateOut paths (adjRib peer)\<rparr>;
          sendpathList = egressLoop (rfMap peer1) (NeighborAddress (peerConfig peer1)) paths []
      in sendMessages (CreateUpdateMsgFromPaths sendpathList) peer1)"

text \<open>Lines 476-502: the import policy loop of \<^verbatim>\<open>handlePeerMsg\<close>.\<close>

fun importLoop :: "Policy list \<Rightarrow> DefaultPolicyType \<Rightarrow> Path list \<Rightarrow> Path list \<Rightarrow> Path list" where
  "importLoop policies dflt [] paths = paths"
| "importLoop policies dflt (p # pList) paths =
     (if \<not> IsWithdraw p then
        (if length policies \<noteq> 0 then
           (case applyPolicies policies p of
              (applied, newPath) \<Rightarrow>
                if applied then
                  (case newPath of
                     Some np \<Rightarrow> importLoop policies dflt pList (paths @ [np])
                   | None \<Rightarrow> importLoop policies dflt pList paths)
                else if dflt = DEFAULT_POLICY_TYPE_ACCEPT_ROUTE then
                  importLoop policies dflt pList (paths @ [p])
                else importLoop policies dflt pList paths)
         else importLoop policies dflt pList (paths @ [p]))
      else importLoop policies dflt pList (paths @ [p]))"

text \<open>Lines 516-523: the loop of the PEER_DOWN case over the configured families.\<close>

fun peerDownLoop :: "'rib collaborators \<Rightarrow> PeerInfo \<Rightarrow> RouteFamily list \<Rightarrow> 'rib Peer \<Rightarrow> error + 'rib Peer" where
  "peerDownLoop ext info [] peer = Inr peer"
| "peerDownLoop ext info (rf # rfs) peer =
     (case rib_DeletePathsforPeer ext (rib peer) info rf of
        (pList, rib') \<Rightarrow>
          (let peer1 = peer\<lparr>rib := rib'\<rparr>
           in if RouteServer_RouteServerClient (peerConfig peer1) then
                (case sendUpdateMsgFromPaths ext pList peer1 of
                   Inl e \<Rightarrow> Inl e
                 | Inr peer2 \<Rightarrow> peerDownLoop ext info rfs peer2)
              else if isGlobalRib peer1 then
                peerDownLoop ext info rfs (sendPathsToSiblings pList peer1)
              else peerDownLoop ext info rfs peer1))"

text \<open>Lines 464-525.\<close>

definition handlePeerMsg :: "'rib collaborators \<Rightarrow> peerMsg \<Rightarrow> 'rib Peer \<Rightarrow> error + 'rib Peer" where
  "handlePeerMsg ext m peer =
     (case m of
        PEER_MSG_PATH pList \<Rightarrow>
          (let paths = importLoop (importPolicies peer) (defaultImportPolicy peer) pList [];
               (paths', rib') =
                  (if RouteServer_RouteServerClient (peerConfig peer) \<or> isGlobalRib peer
                   then rib_ProcessPaths ext (rib peer) paths else (paths, rib peer));
               peer1 = peer\<lparr>rib := rib'\<rparr>
           in if isGlobalRib peer1 then Inr (sendPathsToSiblings paths' peer1)
              else sendUpdateMsgFromPaths ext paths' peer1)
      | PEER_MSG_PEER_DOWN info \<Rightarrow> peerDownLoop ext info (configuredRFlist ext peer) peer)"

subsection \<open>Server control messages\<close>

text \<open>Lines 115-146: the names that the policy map does not resolve are skipped.\<close>

fun lookupPolicies :: "(string \<rightharpoonup> Policy) \<Rightarrow> string list \<Rightarrow> Policy list \<Rightarrow> Policy list" where
  "lookupPolicies policyMap [] acc = acc"
| "lookupPolicies policyMap (policyName # names) acc =
     (case policyMap policyName of
        Some pol \<Rightarrow> lookupPolicies policyMap names (acc @ [pol])
      | None \<Rightarrow> lookupPolicies policyMap names acc)"

definition setPolicy :: "(string \<rightharpoonup> Policy) \<Rightarrow> 'rib Peer \<Rightarrow> 'rib Peer" where
  "setPolicy policyMap peer =
     peer\<lparr>importPolicies := lookupPolicies policyMap (ApplyPolicy_ImportPolicies (peerConfig peer)) [],
          exportPolicies := lookupPolicies policyMap (ApplyPolicy_ExportPolicies (peerConfig peer)) []\<rparr>"

text \<open>
  Lines 287-360, the effect on the peer; the reply written on \<^verbatim>\<open>restReq.ResponseCh\<close> is
  JSON of the collaborators and is not part of the peer.
\<close>

definition handleREST :: "RestRequest \<Rightarrow> 'rib Peer \<Rightarrow> error + 'rib Peer" where
  "handleREST restReq peer =
     (let softResetOut = (\<lambda>peer'.
            sendMessages (CreateUpdateMsgFromPaths (GetOutPathList (adjRib peer') (RouteFamily restReq))) peer');
          softResetIn = (\<lambda>peer'.
            sendPathsToSiblings (GetInPathList (adjRib peer') (RouteFamily restReq)) peer');
          offer = (\<lambda>a. if length (adminStateCh (fsm peer)) < 1
                         then peer\<lparr>fsm := (fsm peer)\<lparr>adminStateCh := adminStateCh (fsm peer) @ [a]\<rparr>\<rparr>
                         else peer)
      in case RequestType restReq of
           REQ_LOCAL_RIB \<Rightarrow> Inr peer
         | REQ_GLOBAL_RIB \<Rightarrow> Inr peer
         | REQ_NEIGHBOR_SHUTDOWN \<Rightarrow>
             Inr (peer\<lparr>outgoing := outgoing peer @
                    [NewBGPNotificationMessage BGP_ERROR_CEASE BGP_ERROR_SUB_ADMINISTRATIVE_SHUTDOWN []]\<rparr>)
         | REQ_NEIGHBOR_RESET \<Rightarrow>
             Inr (peer\<lparr>fsm := (fsm peer)\<lparr>idleHoldTime := Timers_IdleHoldTimeAfterReset (peerConfig peer)\<rparr>,
                       outgoing := outgoing peer @
                    [NewBGPNotificationMessage BGP_ERROR_CEASE BGP_ERROR_SUB_ADMINISTRATIVE_RESET []]\<rparr>)
         | REQ_NEIGHBOR_SOFT_RESET \<Rightarrow> softResetOut (softResetIn peer)
         | REQ_NEIGHBOR_SOFT_RESET_IN \<Rightarrow> Inr (softResetIn peer)
         | REQ_NEIGHBOR_SOFT_RESET_OUT \<Rightarrow> softResetOut peer
         | REQ_ADJ_RIB_IN \<Rightarrow> Inr peer
         | REQ_ADJ_RIB_OUT \<Rightarrow> Inr peer
         | REQ_NEIGHBOR_ENABLE \<Rightarrow> Inr (offer ADMIN_STATE_UP)
         | REQ_NEIGHBOR_DISABLE \<Rightarrow> Inr (offer ADMIN_STATE_DOWN)
         | REQ_OTHER \<Rightarrow> Inr peer)"

text \<open>Lines 532-538 and 543-550: the loops of PEER_ADDED and PEER_DELETED.\<close>

fun peerAddedLoop :: "'rib collaborators \<Rightarrow> RouteFamily list \<Rightarrow> 'rib Peer \<Rightarrow> 'rib Peer" where
  "peerAddedLoop ext [] peer = peer"
| "peerAddedLoop ext (rf # rfs) peer =
     (if RouteServer_RouteServerClient (peerConfig peer) then
        peerAddedLoop ext rfs (sendPathsToSiblings (GetInPathList (adjRib peer) rf) peer)
      else if isGlobalRib peer then
        peerAddedLoop ext rfs (sendPathsToSiblings (rib_GetPathList ext (rib peer) rf) peer)
      else peerAddedLoop ext rfs peer)"

fun peerDeletedLoop :: "'rib collaborators \<Rightarrow> PeerInfo \<Rightarrow> RouteFamily list \<Rightarrow> 'rib Peer \<Rightarrow> error + 'rib Peer" where
  "peerDeletedLoop ext d [] peer = Inr peer"
| "peerDeletedLoop ext d (rf # rfs) peer =
     (case rib_DeletePathsforPeer ext (rib peer) d rf of
        (pList, rib') \<Rightarrow>
          (let peer1 = peer\<lparr>rib := rib'\<rparr>
           in if RouteServer_RouteServerClient (peerConfig peer1) then
                (case sendUpdateMsgFromPaths ext pList peer1 of
                   Inl e \<Rightarrow> Inl e
                 | Inr peer2 \<Rightarrow> peerDeletedLoop ext d rfs peer2)
              else peerDeletedLoop ext d rfs (sendPathsToSiblings pList peer1)))"

text \<open>Lines 527-563.\<close>

definition handleServerMsg :: "'rib collaborators \<Rightarrow> serverMsg \<Rightarrow> 'rib Peer \<Rightarrow> error + 'rib Peer" where
  "handleServerMsg ext m peer =
     (case m of
        SRV_MSG_PEER_ADDED d \<Rightarrow>
          Inr (peerAddedLoop ext (configuredRFlist ext peer)
                 (peer\<lparr>siblings := AList.update (ip_String ext (address d)) d (siblings peer)\<rparr>))
      | SRV_MSG_PEER_DELETED d \<Rightarrow>
          (if map_of (siblings peer) (ip_String ext (Address d)) \<noteq> None then
             peerDeletedLoop ext d (configuredRFlist ext peer)
               (peer\<lparr>siblings := AList.delete (ip_String ext (Address d)) (siblings peer)\<rparr>)
           else Inr peer)
      | SRV_MSG_API restReq \<Rightarrow> handleREST restReq peer
      | SRV_MSG_POLICY_UPDATED d \<Rightarrow> Inr (setPolicy d peer)
      | SRV_MSG_OTHER \<Rightarrow> Inl (Fatal ''unknown server msg type''))"

subsection \<open>NewPeer\<close>

text \<open>
  Modelled from the spec: the enumerators of \<^verbatim>\<open>config.DefaultPolicyType\<close> are not under
  src; spec 3 lists the verdicts as accept, reject, and \<^verbatim>\<open>NewPeer\<close> leaves both default
  verdicts at the zero value of the type, the first enumerator.
\<close>

definition DefaultPolicyType_zero :: DefaultPolicyType where
  "DefaultPolicyType_zero = DEFAULT_POLICY_TYPE_ACCEPT_ROUTE"

text \<open>Lines 89-91 and 95-98.\<close>

fun newPeer_siblings :: "'rib collaborators \<Rightarrow> serverMsgDataPeer list \<Rightarrow> (string \<times> serverMsgDataPeer) list \<Rightarrow> (string \<times> serverMsgDataPeer) list" where
  "newPeer_siblings ext [] sib = sib"
| "newPeer_siblings ext (s # peerList) sib =
     newPeer_siblings ext peerList (AList.update (ip_String ext (address s)) s sib)"

fun newPeer_rfMap :: "'rib collaborators \<Rightarrow> string list \<Rightarrow> (RouteFamily \<rightharpoonup> bool) \<Rightarrow> (RouteFamily \<rightharpoonup> bool)" where
  "newPeer_rfMap ext [] m = m"
| "newPeer_rfMap ext (rf # rest) m = newPeer_rfMap ext rest (m(bgp_GetRouteFamily ext rf \<mapsto> True))"

text \<open>
  Lines 76-113, without the start of the goroutines. \<open>mb\<close> is the store of the mailboxes
  at the time of the call. Lines 93-94 write to the variable the FSM points to, after
  line 79 has copied it into \<^verbatim>\<open>p.peerConfig\<close>.
\<close>

definition NewPeer ::
  "'rib collaborators \<Rightarrow> int \<Rightarrow> (chan \<Rightarrow> peerMsg list) \<Rightarrow> Global \<Rightarrow> Neighbor \<Rightarrow> serverMsgDataPeer list \<Rightarrow>
     bool \<Rightarrow> (string \<rightharpoonup> Policy) \<Rightarrow> 'rib Peer" where
  "NewPeer ext now mb g peer peerList isGlobal policyMap =
     (let rfList = map (bgp_GetRouteFamily ext) (AfiSafiList peer);
          p = \<lparr>globalConfig = g,
               peerConfig = peer,
               connCh_closed = False,
               getActiveCh = 0,
               fsm = (server_NewFSM ext g peer)\<lparr>fsm_peerConfig :=
                       peer\<lparr>BgpNeighborCommonState :=
                         (BgpNeighborCommonState peer)\<lparr>State := BGP_FSM_IDLE, Downtime := Unix now\<rparr>\<rparr>\<rparr>,
               adjRib = NewAdjRib rfList,
               rib = table_NewTableManager ext (ip_String ext (NeighborAddress peer)) rfList,
               isGlobalRib = isGlobal,
               rfMap = newPeer_rfMap ext (AfiSafiList peer) Map.empty,
               capMap = Map.empty,
               peerInfo = \<lparr>AS = PeerAs peer, ID = [], LocalID = RouterId g, Address = NeighborAddress peer\<rparr>,
               siblings = newPeer_siblings ext peerList [],
               outgoing = [],
               importPolicies = [],
               defaultImportPolicy = DefaultPolicyType_zero,
               exportPolicies = [],
               defaultExportPolicy = DefaultPolicyType_zero,
               mailboxes = mb\<rparr>
      in setPolicy policyMap p)"

subsection \<open>The event loop\<close>

text \<open>
  Lines 628-631: the Adj-RIB-Out of every negotiated family is sent. Go visits the keys
  of \<open>rfMap\<close> in an order of its choosing: the list \<open>order\<close>, which names every key
  once.
\<close>

fun establishedLoop :: "RouteFamily list \<Rightarrow> 'rib Peer \<Rightarrow> error + 'rib Peer" where
  "establishedLoop [] peer = Inr peer"
| "establishedLoop (rf # order) peer =
     (if rfMap peer rf = None then establishedLoop order peer
      else
        (case sendMessages (CreateUpdateMsgFromPaths (GetOutPathList (adjRib peer) rf)) peer of
           Inl e \<Rightarrow> Inl e
         | Inr peer1 \<Rightarrow> establishedLoop order peer1))"

definition set_fsm_CommonState :: "(BgpNeighborCommonState \<Rightarrow> BgpNeighborCommonState) \<Rightarrow> 'rib Peer \<Rightarrow> 'rib Peer" where
  "set_fsm_CommonState upd peer =
     peer\<lparr>fsm := (fsm peer)\<lparr>fsm_peerConfig :=
       (fsm_peerConfig (fsm peer))\<lparr>BgpNeighborCommonState :=
          upd (BgpNeighborCommonState (fsm_peerConfig (fsm peer)))\<rparr>\<rparr>\<rparr>"

text \<open>
  Lines 618-642: the head of an iteration of the outer loop, which makes the channels
  anew and runs the entry actions of the current state.
\<close>

definition loop_enter :: "int \<Rightarrow> RouteFamily list \<Rightarrow> 'rib Peer \<Rightarrow> error + 'rib Peer" where
  "loop_enter now order peer =
     (let peer0 = peer\<lparr>outgoing := []\<rparr>
      in if isGlobalRib peer0 then Inr peer0
         else
           (case State (BgpNeighborCommonState (peerConfig peer0)) of
              BGP_FSM_ESTABLISHED \<Rightarrow>
                (case establishedLoop order
                        (peer0\<lparr>peerConfig := (peerConfig peer0)\<lparr>LocalAddress := LocalAddr (fsm peer0)\<rparr>\<rparr>) of
                   Inl e \<Rightarrow> Inl e
                 | Inr peer1 \<Rightarrow>
                     Inr (set_fsm_CommonState
                            (\<lambda>c. c\<lparr>Uptime := Unix now, EstablishedCount := EstablishedCount c + 1\<rparr>) peer1))
            | BGP_FSM_ACTIVE \<Rightarrow>
                (let peer1 = (if \<not> TransportOptions_PassiveMode (peerConfig peer0)
                              then peer0\<lparr>getActiveCh := getActiveCh peer0 + 1\<rparr> else peer0)
                 in Inr (set_fsm_CommonState (\<lambda>c. c\<lparr>Downtime := Unix now\<rparr>) peer1))
            | _ \<Rightarrow> Inr (set_fsm_CommonState (\<lambda>c. c\<lparr>Downtime := Unix now\<rparr>) peer0)))"

text \<open>
  \<^verbatim>\<open>FLOP_THRESHOLD = time.Second * 30\<close>, in nanoseconds.
\<close>

definition FLOP_THRESHOLD :: int where
  "FLOP_THRESHOLD = 1000000000 * 30"

text \<open>
  The arithmetic of package time behind line 667. A \<^verbatim>\<open>Time\<close> holds the seconds since the
  year 1 in an \<^verbatim>\<open>int64\<close>: \<^verbatim>\<open>time.Unix(sec, 0)\<close> adds \<^verbatim>\<open>unixToInternal\<close> to \<open>sec\<close> and
  wraps around. \<^verbatim>\<open>t.Sub(u)\<close> is the difference in nanoseconds, or the largest or the
  smallest \<^verbatim>\<open>Duration\<close> when the difference is out of range. \<open>time_Sub now u\<close> is
  \<^verbatim>\<open>time.Now().Sub(u)\<close> for the clock reading \<open>now\<close>, in nanoseconds since 1970, and
  a time of \<open>u\<close> whole seconds since the year 1; the reading of a clock is within the
  range of a \<^verbatim>\<open>Time\<close>.
\<close>

definition int64 :: "int \<Rightarrow> int" where
  "int64 x = (x + 9223372036854775808) mod 18446744073709551616 - 9223372036854775808"

definition unixToInternal :: int where
  "unixToInternal = 62135596800"

definition maxDuration :: int where
  "maxDuration = 9223372036854775807"

definition minDuration :: int where
  "minDuration = - 9223372036854775808"

definition time_Unix :: "int \<Rightarrow> int" where
  "time_Unix sec = int64 (sec + unixToInternal)"

definition time_Sub :: "int \<Rightarrow> int \<Rightarrow> int" where
  "time_Sub now u =
     (let d = (now div 1000000000 + unixToInternal - u) * 1000000000 + now mod 1000000000
      in if d > maxDuration then maxDuration
         else if d < minDuration then minDuration
         else d)"

definition FSM_CHANNEL_LENGTH :: nat where
  "FSM_CHANNEL_LENGTH = 1024"

text \<open>Lines 671-673.\<close>

fun dropAllInLoop :: "RouteFamily list \<Rightarrow> AdjRib \<Rightarrow> AdjRib" where
  "dropAllInLoop [] adj = adj"
| "dropAllInLoop (rf # rfs) adj = dropAllInLoop rfs (DropAllIn rf adj)"

text \<open>Lines 657-686: the FSM_MSG_STATE_CHANGE case.\<close>

definition fsmStateChange :: "'rib collaborators \<Rightarrow> int \<Rightarrow> FSMState \<Rightarrow> 'rib Peer \<Rightarrow> 'rib Peer" where
  "fsmStateChange ext now nextState peer =
     (let oldState = State (BgpNeighborCommonState (peerConfig peer));
          peer1 = peer\<lparr>peerConfig := (peerConfig peer)\<lparr>BgpNeighborCommonState :=
                         (BgpNeighborCommonState (peerConfig peer))\<lparr>State := nextState\<rparr>\<rparr>,
                       fsm := StateChange nextState (fsm peer)\<rparr>;
          peer2 =
            (if oldState = BGP_FSM_ESTABLISHED then
               (let peer3 =
                      (if time_Sub now
                            (time_Unix (Uptime (BgpNeighborCommonState (fsm_peerConfig (fsm peer1)))))
                            < FLOP_THRESHOLD
                       then set_fsm_CommonState (\<lambda>c. c\<lparr>Flops := Flops c + 1\<rparr>) peer1
                       else peer1);
                    peer4 = peer3\<lparr>adjRib := dropAllInLoop (configuredRFlist ext peer3) (adjRib peer3)\<rparr>
                in peer4\<lparr>mailboxes :=
                     sendToSiblings (PEER_MSG_PEER_DOWN (peerInfo peer4)) (siblings peer4) (mailboxes peer4)\<rparr>)
             else peer1)
      in if adminState (fsm peer2) = ADMIN_STATE_DOWN
         then set_fsm_CommonState (\<lambda>c. BgpNeighborCommonState_zero) peer2
         else peer2)"

datatype event =
    Dying
  | Incoming fsmMsg
  | ServerMsg serverMsg
  | PeerMsg peerMsg

datatype loopStatus = SameState | StateChanged | Returned

text \<open>
  Lines 646-706: one event of the inner loop. The global-RIB peer has no FSM handler
  (\<^verbatim>\<open>h\<close> stays nil, lines 621-624): its kill case fails at \<^verbatim>\<open>h.Stop()\<close>, after the send
  on \<open>outgoing\<close>. \<^verbatim>\<open>incoming\<close> is given to the handler alone, so the FSM cases are those
  of a peer that has one.
\<close>

definition loop_step :: "'rib collaborators \<Rightarrow> int \<Rightarrow> event \<Rightarrow> 'rib Peer \<Rightarrow> error + ('rib Peer \<times> loopStatus)" where
  "loop_step ext now e peer =
     (let same = (\<lambda>r. case r of Inl err \<Rightarrow> Inl err | Inr peer' \<Rightarrow> Inr (peer', SameState))
      in case e of
           Dying \<Rightarrow>
             (if isGlobalRib peer then Inl (Panic ''nil FSMHandler'')
              else
                Inr (peer\<lparr>connCh_closed := True,
                          outgoing := outgoing peer @
                            [NewBGPNotificationMessage BGP_ERROR_CEASE BGP_ERROR_SUB_PEER_DECONFIGURED []]\<rparr>,
                     Returned))
         | Incoming (FSM_MSG_STATE_CHANGE nextState) \<Rightarrow>
             Inr (fsmStateChange ext now nextState peer, StateChanged)
         | Incoming (FSM_MSG_BGP_MESSAGE_MessageError m) \<Rightarrow>
             Inr (peer\<lparr>outgoing := outgoing peer @
                    [NewBGPNotificationMessage (TypeCode m) (SubTypeCode m) (ErrData m)]\<rparr>, SameState)
         | Incoming (FSM_MSG_BGP_MESSAGE_BGPMessage m) \<Rightarrow> same (handleBGPmessage ext now m peer)
         | Incoming FSM_MSG_BGP_MESSAGE_unknown \<Rightarrow> Inl (Panic ''unknonw msg type'')
         | ServerMsg m \<Rightarrow> same (handleServerMsg ext m peer)
         | PeerMsg m \<Rightarrow> same (handlePeerMsg ext m peer))"

subsection \<open>Introspection\<close>

text \<open>Lines 758-767: the three counters are \<^verbatim>\<open>uint32\<close> and their sums wrap around.\<close>

fun marshalCounts :: "AdjRib \<Rightarrow> RouteFamily list \<Rightarrow> 32 word \<times> 32 word \<times> 32 word \<Rightarrow> 32 word \<times> 32 word \<times> 32 word" where
  "marshalCounts adj [] acc = acc"
| "marshalCounts adj (rf # rfs) (advertized, received, accepted) =
     marshalCounts adj rfs
       (advertized + of_nat (GetOutCount adj rf),
        received + of_nat (GetInCount adj rf),
        accepted + of_nat (GetInCount adj rf))"

text \<open>
  Lines 720-824: the fields of the snapshot that are integers, states and counts. The
  JSON encoding, the list of capability codes (in the order of a map iteration) and the
  two durations in seconds (computed in floating point) are left out.
\<close>

record PeerSnapshot =
  RemoteIP :: string
  RemoteAS :: "32 word"
  BgpState :: FSMState
  SnapAdminState :: AdminState
  FsmEstablishedTransitions :: "32 word"
  Received :: "32 word"
  Accepted :: "32 word"
  Advertized :: "32 word"
  OutQ :: nat
  SnapFlops :: "32 word"

definition MarshalJSON :: "'rib collaborators \<Rightarrow> 'rib Peer \<Rightarrow> PeerSnapshot" where
  "MarshalJSON ext peer =
     (let f = fsm peer;
          c = fsm_peerConfig f;
          s = BgpNeighborCommonState c;
          (advertized, received, accepted) =
             (if state f = BGP_FSM_ESTABLISHED
              then marshalCounts (adjRib peer) (configuredRFlist ext peer) (0, 0, 0)
              else (0, 0, 0))
      in \<lparr>RemoteIP = ip_String ext (NeighborAddress c),
          RemoteAS = PeerAs c,
          BgpState = state f,
          SnapAdminState = adminState f,
          FsmEstablishedTransitions = EstablishedCount s,
          Received = received,
          Accepted = accepted,
          Advertized = advertized,
          OutQ = length (outgoing peer),
          SnapFlops = Flops s\<rparr>)"

subsection \<open>The families of an OPEN, and the states of a session\<close>

text \<open>
  The families that an OPEN advertises, in the words of the spec: those of the
  multiprotocol capabilities among its optional parameters.
\<close>

primrec capFamilies :: "Capability list \<Rightarrow> RouteFamily list" where
  "capFamilies [] = []"
| "capFamilies (c # cs) =
     (case c of CapMultiProtocol afi safi \<Rightarrow> AfiSafiToRouteFamily afi safi # capFamilies cs
      | _ \<Rightarrow> capFamilies cs)"

primrec paramFamilies :: "OptionParameter list \<Rightarrow> RouteFamily list" where
  "paramFamilies [] = []"
| "paramFamilies (p # ps) =
     (case p of OptionParameterCapability caps \<Rightarrow> capFamilies caps @ paramFamilies ps
      | _ \<Rightarrow> paramFamilies ps)"

definition advertisedFamilies :: "BGPOpen \<Rightarrow> RouteFamily set" where
  "advertisedFamilies body = set (paramFamilies (OptParams body))"

text \<open>
  The states of a session: \<^verbatim>\<open>NewPeer\<close> makes the first, and the event loop takes the
  peer from one to the next by an entry into the outer loop or by an event of the inner
  loop. Between two events the FSM Driver may write to the FSM and take messages from
  \<open>outgoing\<close>, and the siblings may use their mailboxes.
\<close>

inductive reachable :: "'rib collaborators \<Rightarrow> 'rib Peer \<Rightarrow> bool" for ext :: "'rib collaborators" where
  reachable_new: "reachable ext (NewPeer ext now mb g peer peerList isGlobal policyMap)"
| reachable_enter: "reachable ext p \<Longrightarrow> distinct order \<Longrightarrow> set order = dom (rfMap p) \<Longrightarrow>
     loop_enter now order p = Inr p' \<Longrightarrow> reachable ext p'"
| reachable_step: "reachable ext p \<Longrightarrow> loop_step ext now e p = Inr (p', st) \<Longrightarrow> reachable ext p'"
| reachable_env: "reachable ext p \<Longrightarrow> reachable ext (p\<lparr>fsm := f, outgoing := out, mailboxes := mb\<rparr>)"

text \<open>
  Two predicates of the proofs: a handler leaves the negotiated families and the
  configured list alone, and every key of \<open>rfMap\<close> is a configured family.
\<close>

definition sameFamilies :: "'rib Peer \<Rightarrow> 'rib Peer \<Rightarrow> bool" where
  "sameFamilies p p' \<longleftrightarrow>
     rfMap p' = rfMap p \<and> AfiSafiList (peerConfig p') = AfiSafiList (peerConfig p)"

definition rfMap_configured :: "'rib collaborators \<Rightarrow> 'rib Peer \<Rightarrow> bool" where
  "rfMap_configured ext p \<longleftrightarrow>
     (\<forall>f. rfMap p f \<noteq> None \<longrightarrow> f \<in> set (configuredRFlist ext p) \<and> rfMap p f = Some True)"

text \<open>The paths that a message carries to the remote.\<close>

definition messagePaths :: "BGPMessage \<Rightarrow> Path set" where
  "messagePaths m = (case m of BGP_MSG_UPDATE body \<Rightarrow> set (UpdatePaths body) | _ \<Rightarrow> {})"

subsection \<open>Sample values\<close>

definition ip_192_0_2_1 :: IP where
  "ip_192_0_2_1 = [192, 0, 2, 1]"

definition ip_192_0_2_9 :: IP where
  "ip_192_0_2_9 = [192, 0, 2, 9]"

definition sample_source :: PeerInfo where
  "sample_source = \<lparr>AS = 65001, ID = [10, 0, 0, 2], LocalID = [10, 0, 0, 1], Address = [192, 0, 2, 9]\<rparr>"

definition sample_path :: Path where
  "sample_path = \<lparr>GetRouteFamily = 65537, getPrefix = ''10.7.0.0/24'', getPathAttrs = [],
     GetNexthop = ip_192_0_2_9, IsWithdraw = False, getSource = sample_source\<rparr>"

definition policy_nomatch :: Policy where
  "policy_nomatch = \<lparr>Name = ''nomatch'', Apply = (\<lambda>p. (False, ROUTE_TYPE_NONE, p))\<rparr>"

definition policy_reject :: Policy where
  "policy_reject = \<lparr>Name = ''reject'', Apply = (\<lambda>p. (True, ROUTE_TYPE_REJECT, p))\<rparr>"

definition policy_prepend :: Policy where
  "policy_prepend = \<lparr>Name = ''prepend'',
     Apply = (\<lambda>p. (True, ROUTE_TYPE_ACCEPT, p\<lparr>getPathAttrs := 1 # getPathAttrs p\<rparr>))\<rparr>"

definition sample_ext :: "unit collaborators" where
  "sample_ext =
     \<lparr>bgp_GetRouteFamily = (\<lambda>n. if n = ''ipv4-unicast'' then 65537
                                else if n = ''ipv6-unicast'' then 131073 else 0),
      ip_String = (\<lambda>ip. if ip = [192, 0, 2, 1] then ''192.0.2.1''
                        else if ip = [192, 0, 2, 9] then ''192.0.2.9'' else ''other''),
      bgp_ValidateUpdateMsg = (\<lambda>body rfm.
         if list_ex (\<lambda>p. getPrefix p = ''malformed'') (UpdatePaths body)
         then Some \<lparr>TypeCode = 3, SubTypeCode = 11, ErrData = []\<rparr>
         else if list_ex (\<lambda>p. getPrefix p = ''ignored'') (UpdatePaths body)
         then Some \<lparr>TypeCode = 0, SubTypeCode = 0, ErrData = []\<rparr>
         else None),
      table_CloneAndUpdatePathAttrs = (\<lambda>pList g n. pList),
      table_NewTableManager = (\<lambda>owner rfList. ()),
      rib_ProcessPaths = (\<lambda>r pList. (pList, r)),
      rib_DeletePathsforPeer = (\<lambda>r info rf. ([], r)),
      rib_GetPathList = (\<lambda>r rf. []),
      server_NewFSM = (\<lambda>g n.
         \<lparr>state = BGP_FSM_IDLE, adminState = ADMIN_STATE_UP, negotiatedHoldTime = 0,
          idleHoldTime = 0, fsm_peerConfig = n, adminStateCh = [], LocalAddr = [192, 0, 2, 200]\<rparr>)\<rparr>"

definition sample_global :: Global where
  "sample_global = \<lparr>As = 65000, RouterId = [10, 0, 0, 1]\<rparr>"

definition sample_neighbor :: Neighbor where
  "sample_neighbor =
     \<lparr>NeighborAddress = ip_192_0_2_1, PeerAs = 65001,
      AfiSafiList = [''ipv4-unicast'', ''ipv6-unicast''],
      Timers_HoldTime = 90, Timers_ConnectRetry = 30, Timers_IdleHoldTimeAfterReset = 30,
      TransportOptions_PassiveMode = False, RouteServer_RouteServerClient = True,
      ApplyPolicy_ImportPolicies = [], ApplyPolicy_ExportPolicies = [],
      LocalAddress = [], BgpNeighborCommonState = BgpNeighborCommonState_zero\<rparr>"

definition sample_sibling :: serverMsgDataPeer where
  "sample_sibling = \<lparr>address = ip_192_0_2_9, peerMsgCh = 7\<rparr>"

definition sample_peer :: "unit Peer" where
  "sample_peer = NewPeer sample_ext 0 (\<lambda>c. []) sample_global sample_neighbor [sample_sibling] False Map.empty"

definition sample_open :: BGPOpen where
  "sample_open = \<lparr>HoldTime = 30, OpenID = [10, 0, 0, 2],
     OptParams = [OptionParameterCapability [CapMultiProtocol 1 1, CapRouteRefresh]]\<rparr>"

definition sample_malformed :: BGPUpdate where
  "sample_malformed = \<lparr>UpdatePaths = [sample_path\<lparr>getPrefix := ''malformed''\<rparr>], TwoOctetAS = False\<rparr>"

definition sample_ignored :: BGPUpdate where
  "sample_ignored = \<lparr>UpdatePaths = [sample_path\<lparr>getPrefix := ''ignored''\<rparr>], TwoOctetAS = False\<rparr>"


definition sample_established :: "unit Peer" where
  "sample_established =
     sample_peer\<lparr>peerConfig := (peerConfig sample_peer)\<lparr>BgpNeighborCommonState :=
                    BgpNeighborCommonState_zero\<lparr>State := BGP_FSM_ESTABLISHED\<rparr>\<rparr>,
                 fsm := (fsm sample_peer)\<lparr>state := BGP_FSM_ESTABLISHED,
                    fsm_peerConfig := (fsm_peerConfig (fsm sample_peer))\<lparr>BgpNeighborCommonState :=
                      BgpNeighborCommonState_zero\<lparr>Uptime := 100, Flops := 3, EstablishedCount := 4\<rparr>\<rparr>\<rparr>,
                 adjRib := AdjRib_UpdateIn [sample_path] (adjRib sample_peer)\<rparr>"

definition sample_established_reject :: "unit Peer" where
  "sample_established_reject =
     sample_established\<lparr>defaultImportPolicy := DEFAULT_POLICY_TYPE_REJECT_ROUTE,
                        defaultExportPolicy := DEFAULT_POLICY_TYPE_REJECT_ROUTE\<rparr>"

definition sample_established_prepend :: "unit Peer" where
  "sample_established_prepend =
     sample_established\<lparr>importPolicies := [policy_prepend], exportPolicies := [policy_prepend]\<rparr>"

definition sample_established_down :: "unit Peer" where
  "sample_established_down =
     sample_established\<lparr>fsm := (fsm sample_established)\<lparr>adminState := ADMIN_STATE_DOWN\<rparr>\<rparr>"

definition sample_own_path :: Path where
  "sample_own_path = \<lparr>GetRouteFamily = 65537, getPrefix = ''10.7.0.0/24'', getPathAttrs = [],
     GetNexthop = ip_192_0_2_1, IsWithdraw = False,
     getSource = \<lparr>AS = 65001, ID = [10, 0, 0, 2], LocalID = [10, 0, 0, 1], Address = ip_192_0_2_1\<rparr>\<rparr>"

section \<open>Policy application\<close>

lemma applyPolicies_nomatch:
  "\<forall>q \<in> set ps. \<not> fst (Apply q path) \<Longrightarrow> applyPolicies ps path = (False, Some path)"
  by (induction ps) (auto split: prod.splits)

lemma applyPolicies_skip_prefix:
  "\<forall>q \<in> set ps. \<not> fst (Apply q path) \<Longrightarrow>
     applyPolicies (ps @ rest) path = applyPolicies rest path"
  by (induction ps) (auto split: prod.splits)

text \<open>
  C2. The chain is \<open>ps @ pol # qs\<close> where no policy of \<open>ps\<close> matches the path and
  \<open>pol\<close> does: the result is \<open>(True, None)\<close> when the action of \<open>pol\<close> is REJECT and
  \<open>(True, Some newPath)\<close> otherwise, whatever the later policies \<open>qs\<close> are. A chain
  \<open>ps\<close> in which no policy matches gives \<open>(False, Some path)\<close>, the path unchanged.
\<close>

theorem applyPolicies_first_match:
  assumes "\<forall>q \<in> set ps. \<not> fst (Apply q path)"
  shows "applyPolicies ps path = (False, Some path) \<and>
         (fst (Apply pol path) \<longrightarrow>
            applyPolicies (ps @ pol # qs) path =
              (True, if fst (snd (Apply pol path)) = ROUTE_TYPE_REJECT then None
                     else Some (snd (snd (Apply pol path)))))"
proof (intro conjI impI)
  show "applyPolicies ps path = (False, Some path)"
    using assms by (rule applyPolicies_nomatch)
next
  assume m: "fst (Apply pol path)"
  have "applyPolicies (ps @ pol # qs) path = applyPolicies (pol # qs) path"
    using assms by (rule applyPolicies_skip_prefix)
  also have "\<dots> = (True, if fst (snd (Apply pol path)) = ROUTE_TYPE_REJECT then None
                    else Some (snd (snd (Apply pol path))))"
    using m by (cases "Apply pol path") auto
  finally show "applyPolicies (ps @ pol # qs) path =
             (True, if fst (snd (Apply pol path)) = ROUTE_TYPE_REJECT then None
                    else Some (snd (snd (Apply pol path))))" .
qed

theorem applyPolicies_first_match_witness:
  "applyPolicies [policy_nomatch] sample_path = (False, Some sample_path) \<and>
   applyPolicies ([policy_nomatch] @ policy_reject # [policy_prepend]) sample_path = (True, None) \<and>
   applyPolicies ([policy_nomatch] @ policy_prepend # [policy_reject]) sample_path =
     (True, Some (sample_path\<lparr>getPathAttrs := [1]\<rparr>))"
proof -
  have h: "\<forall>q \<in> set [policy_nomatch]. \<not> fst (Apply q sample_path)"
    by (simp add: policy_nomatch_def)
  have r: "fst (Apply policy_reject sample_path)"
    by (simp add: policy_reject_def)
  have a: "fst (Apply policy_prepend sample_path)"
    by (simp add: policy_prepend_def)
  show ?thesis
    using applyPolicies_first_match [OF h, of policy_reject "[policy_prepend]"]
      applyPolicies_first_match [OF h, of policy_prepend "[policy_reject]"] r a
    by (simp add: policy_reject_def policy_prepend_def sample_path_def)
qed

section \<open>Negotiation of the route families\<close>

lemma open_capabilities_r:
  "snd (open_capabilities cs (cm, r)) f =
     (if f \<in> set (capFamilies cs) then Some True else r f)"
  by (induction cs arbitrary: cm r) (auto split: Capability.splits)

lemma open_optParams_r:
  "snd (open_optParams ps (cm, r)) f =
     (if f \<in> set (paramFamilies ps) then Some True else r f)"
proof (induction ps arbitrary: cm r)
  case Nil
  show ?case by simp
next
  case (Cons p ps)
  show ?case
  proof (cases p)
    case (OptionParameterCapability caps)
    obtain cm' r' where e: "open_capabilities caps (cm, r) = (cm', r')"
      by (cases "open_capabilities caps (cm, r)")
    have "r' f = snd (open_capabilities caps (cm, r)) f" using e by simp
    then have r': "r' f = (if f \<in> set (capFamilies caps) then Some True else r f)"
      by (simp only: open_capabilities_r)
    have "snd (open_optParams (p # ps) (cm, r)) f = snd (open_optParams ps (cm', r')) f"
      by (simp add: OptionParameterCapability e)
    also have "\<dots> = (if f \<in> set (paramFamilies ps) then Some True else r' f)"
      by (rule Cons.IH)
    also have "\<dots> = (if f \<in> set (paramFamilies (p # ps)) then Some True else r f)"
      by (simp add: OptionParameterCapability r')
    finally show ?thesis .
  next
    case (OptionParameterUnknown t v)
    then show ?thesis using Cons.IH [of cm r] by simp
  qed
qed

lemma open_addConfigured_apply:
  "open_addConfigured cfg r m f =
     (if f \<in> set cfg \<and> r f \<noteq> None then Some True else m f)"
  by (induction cfg arbitrary: m) auto

lemma open_rfMap_apply:
  assumes "\<And>g. r g = (if g \<in> A then Some True else None)"
  shows "open_addConfigured cfg r (open_deleteUnadvertised r m) f =
     (if f \<in> A then (if f \<in> set cfg then Some True else m f) else None)"
proof (cases "f \<in> A")
  case True
  then have "r f = Some True" by (simp add: assms)
  then show ?thesis using True
    by (simp add: open_addConfigured_apply open_deleteUnadvertised_def)
next
  case False
  then have "r f = None" by (simp add: assms)
  then show ?thesis using False
    by (simp add: open_addConfigured_apply open_deleteUnadvertised_def)
qed

lemma handleBGPmessage_OPEN:
  "\<exists>peer'. handleBGPmessage ext now (BGP_MSG_OPEN body) peer = Inr peer' \<and>
     peerConfig peer' = peerConfig peer \<and>
     adjRib peer' = adjRib peer \<and>
     (\<forall>f. rfMap peer' f =
        (if f \<in> advertisedFamilies body
         then (if f \<in> set (configuredRFlist ext peer) then Some True else rfMap peer f)
         else None))"
proof -
  obtain cm r where e: "open_optParams (OptParams body) (capMap peer, Map.empty) = (cm, r)"
    by (cases "open_optParams (OptParams body) (capMap peer, Map.empty)")
  have "r = snd (open_optParams (OptParams body) (capMap peer, Map.empty))"
    using e by simp
  then have r: "\<And>g. r g = (if g \<in> advertisedFamilies body then Some True else None)"
    by (simp add: open_optParams_r advertisedFamilies_def)
  show ?thesis
    by (simp add: handleBGPmessage_def Let_def e open_rfMap_apply [OF r])
qed

lemma sameFamilies_refl: "sameFamilies p p"
  by (simp add: sameFamilies_def)

lemma sameFamilies_trans: "sameFamilies p q \<Longrightarrow> sameFamilies q r \<Longrightarrow> sameFamilies p r"
  by (simp add: sameFamilies_def)

lemma sendMessages_outgoing_only:
  "sendMessages msgs p = Inr p' \<Longrightarrow> \<exists>out. p' = p\<lparr>outgoing := out\<rparr>"
proof (induction msgs arbitrary: p)
  case Nil
  then have "p' = p\<lparr>outgoing := outgoing p\<rparr>" by simp
  then show ?case by blast
next
  case (Cons m msgs)
  show ?case
  proof (cases "State (BgpNeighborCommonState (peerConfig p)) \<noteq> BGP_FSM_ESTABLISHED")
    case True
    then show ?thesis using Cons by simp
  next
    case False
    then obtain body where m: "m = BGP_MSG_UPDATE body"
      using Cons.prems by (cases m) auto
    define q where "q = p\<lparr>outgoing := outgoing p @
        [if capMap p BGP_CAP_FOUR_OCTET_AS_NUMBER = None
         then BGP_MSG_UPDATE (UpdatePathAttrs2ByteAs body) else m]\<rparr>"
    have "sendMessages msgs q = Inr p'"
      using Cons.prems False by (auto simp: m q_def Let_def)
    then obtain out where "p' = q\<lparr>outgoing := out\<rparr>"
      using Cons.IH by blast
    then have "p' = p\<lparr>outgoing := out\<rparr>" by (simp add: q_def)
    then show ?thesis by blast
  qed
qed

lemma sendMessages_sameFamilies: "sendMessages msgs p = Inr p' \<Longrightarrow> sameFamilies p p'"
  using sendMessages_outgoing_only [of msgs p p'] by (auto simp: sameFamilies_def)

lemma sendPathsToSiblings_sameFamilies: "sameFamilies p (sendPathsToSiblings pathList p)"
  by (simp add: sameFamilies_def sendPathsToSiblings_def)

lemma sendUpdateMsgFromPaths_sameFamilies:
  "sendUpdateMsgFromPaths ext pList p = Inr p' \<Longrightarrow> sameFamilies p p'"
  unfolding sendUpdateMsgFromPaths_def Let_def
  by (drule sendMessages_sameFamilies) (simp add: sameFamilies_def)

lemma peerDownLoop_sameFamilies:
  "peerDownLoop ext info rfs p = Inr p' \<Longrightarrow> sameFamilies p p'"
proof (induction rfs arbitrary: p)
  case Nil
  then show ?case by (simp add: sameFamilies_def)
next
  case (Cons rf rfs)
  obtain pList rib' where d: "rib_DeletePathsforPeer ext (rib p) info rf = (pList, rib')"
    by (cases "rib_DeletePathsforPeer ext (rib p) info rf")
  define p1 where "p1 = p\<lparr>rib := rib'\<rparr>"
  have s1: "sameFamilies p p1" by (simp add: sameFamilies_def p1_def)
  show ?case
  proof (cases "RouteServer_RouteServerClient (peerConfig p1)")
    case True
    then obtain p2 where u: "sendUpdateMsgFromPaths ext pList p1 = Inr p2"
      and r: "peerDownLoop ext info rfs p2 = Inr p'"
      using Cons.prems by (auto simp: d p1_def Let_def split: sum.splits)
    show ?thesis
      using s1 sendUpdateMsgFromPaths_sameFamilies [OF u] Cons.IH [OF r]
      by (blast intro: sameFamilies_trans)
  next
    case False
    then have r: "peerDownLoop ext info rfs
        (if isGlobalRib p1 then sendPathsToSiblings pList p1 else p1) = Inr p'"
      using Cons.prems by (auto simp: d p1_def Let_def)
    have "sameFamilies p1 (if isGlobalRib p1 then sendPathsToSiblings pList p1 else p1)"
      by (simp add: sendPathsToSiblings_sameFamilies sameFamilies_refl)
    then show ?thesis
      using s1 Cons.IH [OF r] by (blast intro: sameFamilies_trans)
  qed
qed

lemma peerDeletedLoop_sameFamilies:
  "peerDeletedLoop ext d rfs p = Inr p' \<Longrightarrow> sameFamilies p p'"
proof (induction rfs arbitrary: p)
  case Nil
  then show ?case by (simp add: sameFamilies_def)
next
  case (Cons rf rfs)
  obtain pList rib' where d: "rib_DeletePathsforPeer ext (rib p) d rf = (pList, rib')"
    by (cases "rib_DeletePathsforPeer ext (rib p) d rf")
  define p1 where "p1 = p\<lparr>rib := rib'\<rparr>"
  have s1: "sameFamilies p p1" by (simp add: sameFamilies_def p1_def)
  show ?case
  proof (cases "RouteServer_RouteServerClient (peerConfig p1)")
    case True
    then obtain p2 where u: "sendUpdateMsgFromPaths ext pList p1 = Inr p2"
      and r: "peerDeletedLoop ext d rfs p2 = Inr p'"
      using Cons.prems by (auto simp: d p1_def Let_def split: sum.splits)
    show ?thesis
      using s1 sendUpdateMsgFromPaths_sameFamilies [OF u] Cons.IH [OF r]
      by (blast intro: sameFamilies_trans)
  next
    case False
    then have r: "peerDeletedLoop ext d rfs (sendPathsToSiblings pList p1) = Inr p'"
      using Cons.prems by (auto simp: d p1_def Let_def)
    show ?thesis
      using s1 sendPathsToSiblings_sameFamilies [of p1 pList] Cons.IH [OF r]
      by (blast intro: sameFamilies_trans)
  qed
qed

lemma peerAddedLoop_sameFamilies: "sameFamilies p (peerAddedLoop ext rfs p)"
proof (induction rfs arbitrary: p)
  case Nil
  show ?case by (simp add: sameFamilies_def)
next
  case (Cons rf rfs)
  show ?case
    using Cons.IH sendPathsToSiblings_sameFamilies
    by (auto intro: sameFamilies_trans)
qed

lemma establishedLoop_sameFamilies:
  "establishedLoop order p = Inr p' \<Longrightarrow> sameFamilies p p'"
proof (induction order arbitrary: p)
  case Nil
  then show ?case by (simp add: sameFamilies_def)
next
  case (Cons rf order)
  show ?case
  proof (cases "rfMap p rf = None")
    case True
    then show ?thesis using Cons by simp
  next
    case False
    then obtain p1 where
      u: "sendMessages (CreateUpdateMsgFromPaths (GetOutPathList (adjRib p) rf)) p = Inr p1"
      and r: "establishedLoop order p1 = Inr p'"
      using Cons.prems by (auto split: sum.splits)
    show ?thesis
      using sendMessages_sameFamilies [OF u] Cons.IH [OF r]
      by (blast intro: sameFamilies_trans)
  qed
qed

lemma handlePeerMsg_sameFamilies:
  "handlePeerMsg ext m p = Inr p' \<Longrightarrow> sameFamilies p p'"
proof (cases m)
  case (PEER_MSG_PATH pList)
  assume h: "handlePeerMsg ext m p = Inr p'"
  obtain paths' rib' where e:
    "(if RouteServer_RouteServerClient (peerConfig p) \<or> isGlobalRib p
      then rib_ProcessPaths ext (rib p)
             (importLoop (importPolicies p) (defaultImportPolicy p) pList [])
      else (importLoop (importPolicies p) (defaultImportPolicy p) pList [], rib p)) = (paths', rib')"
    by (cases "(if RouteServer_RouteServerClient (peerConfig p) \<or> isGlobalRib p
      then rib_ProcessPaths ext (rib p)
             (importLoop (importPolicies p) (defaultImportPolicy p) pList [])
      else (importLoop (importPolicies p) (defaultImportPolicy p) pList [], rib p))")
  define p1 where "p1 = p\<lparr>rib := rib'\<rparr>"
  have s1: "sameFamilies p p1" by (simp add: sameFamilies_def p1_def)
  have r: "(if isGlobalRib p1 then Inr (sendPathsToSiblings paths' p1)
            else sendUpdateMsgFromPaths ext paths' p1) = Inr p'"
    using h e by (auto simp: handlePeerMsg_def PEER_MSG_PATH Let_def p1_def split: if_splits)
  show ?thesis
  proof (cases "isGlobalRib p1")
    case True
    then have "p' = sendPathsToSiblings paths' p1" using r by simp
    then show ?thesis
      using s1 sendPathsToSiblings_sameFamilies [of p1 paths']
      by (blast intro: sameFamilies_trans)
  next
    case False
    then have "sendUpdateMsgFromPaths ext paths' p1 = Inr p'" using r by simp
    then show ?thesis
      using s1 sendUpdateMsgFromPaths_sameFamilies by (blast intro: sameFamilies_trans)
  qed
next
  case (PEER_MSG_PEER_DOWN info)
  assume "handlePeerMsg ext m p = Inr p'"
  then show ?thesis
    by (simp add: handlePeerMsg_def PEER_MSG_PEER_DOWN peerDownLoop_sameFamilies)
qed

lemma handleREST_sameFamilies:
  "handleREST restReq p = Inr p' \<Longrightarrow> sameFamilies p p'"
proof -
  assume h: "handleREST restReq p = Inr p'"
  show ?thesis
  proof (cases "RequestType restReq")
    case REQ_NEIGHBOR_SOFT_RESET
    then have "sendMessages (CreateUpdateMsgFromPaths (GetOutPathList
         (adjRib (sendPathsToSiblings (GetInPathList (adjRib p) (RouteFamily restReq)) p))
         (RouteFamily restReq)))
        (sendPathsToSiblings (GetInPathList (adjRib p) (RouteFamily restReq)) p) = Inr p'"
      using h by (simp add: handleREST_def)
    then show ?thesis
      using sendPathsToSiblings_sameFamilies sendMessages_sameFamilies
      by (blast intro: sameFamilies_trans)
  next
    case REQ_NEIGHBOR_SOFT_RESET_OUT
    then show ?thesis
      using h by (simp add: handleREST_def sendMessages_sameFamilies)
  next
    case REQ_NEIGHBOR_SOFT_RESET_IN
    then show ?thesis
      using h sendPathsToSiblings_sameFamilies by (auto simp: handleREST_def)
  qed (use h in \<open>auto simp: handleREST_def sameFamilies_def\<close>)
qed

lemma handleServerMsg_sameFamilies:
  "handleServerMsg ext m p = Inr p' \<Longrightarrow> sameFamilies p p'"
proof -
  assume h: "handleServerMsg ext m p = Inr p'"
  show ?thesis
  proof (cases m)
    case (SRV_MSG_PEER_ADDED d)
    define p1 where "p1 = p\<lparr>siblings := AList.update (ip_String ext (address d)) d (siblings p)\<rparr>"
    have s1: "sameFamilies p p1" by (simp add: sameFamilies_def p1_def)
    have "p' = peerAddedLoop ext (configuredRFlist ext p) p1"
      using h by (simp add: handleServerMsg_def SRV_MSG_PEER_ADDED p1_def)
    then show ?thesis
      using s1 peerAddedLoop_sameFamilies by (blast intro: sameFamilies_trans)
  next
    case (SRV_MSG_PEER_DELETED d)
    define p1 where "p1 = p\<lparr>siblings := AList.delete (ip_String ext (Address d)) (siblings p)\<rparr>"
    have s1: "sameFamilies p p1" by (simp add: sameFamilies_def p1_def)
    show ?thesis
    proof (cases "map_of (siblings p) (ip_String ext (Address d)) \<noteq> None")
      case True
      then have "peerDeletedLoop ext d (configuredRFlist ext p) p1 = Inr p'"
        using h by (auto simp: handleServerMsg_def SRV_MSG_PEER_DELETED p1_def)
      then show ?thesis
        using s1 peerDeletedLoop_sameFamilies by (blast intro: sameFamilies_trans)
    next
      case False
      then show ?thesis
        using h by (auto simp: handleServerMsg_def SRV_MSG_PEER_DELETED sameFamilies_def)
    qed
  next
    case (SRV_MSG_API restReq)
    then show ?thesis
      using h by (simp add: handleServerMsg_def handleREST_sameFamilies)
  next
    case (SRV_MSG_POLICY_UPDATED d)
    then show ?thesis
      using h by (auto simp: handleServerMsg_def setPolicy_def sameFamilies_def)
  next
    case SRV_MSG_OTHER
    then show ?thesis using h by (simp add: handleServerMsg_def)
  qed
qed

lemma handleBGPmessage_other_sameFamilies:
  assumes "handleBGPmessage ext now m p = Inr p'" and "\<forall>body. m \<noteq> BGP_MSG_OPEN body"
  shows "sameFamilies p p'"
proof (cases m)
  case (BGP_MSG_OPEN body)
  then show ?thesis using assms(2) by simp
next
  case (BGP_MSG_UPDATE body)
  then show ?thesis
    using assms(1)
    by (auto simp: handleBGPmessage_def Let_def sameFamilies_def sendPathsToSiblings_def
             split: option.splits if_splits)
next
  case (BGP_MSG_NOTIFICATION c s d)
  then show ?thesis using assms(1) by (auto simp: handleBGPmessage_def sameFamilies_def)
next
  case BGP_MSG_KEEPALIVE
  then show ?thesis using assms(1) by (auto simp: handleBGPmessage_def sameFamilies_def)
next
  case (BGP_MSG_ROUTE_REFRESH afi safi)
  then show ?thesis
    using assms(1) sendMessages_sameFamilies
    by (auto simp: handleBGPmessage_def Let_def sameFamilies_def split: if_splits)
qed

lemma set_fsm_CommonState_sameFamilies: "sameFamilies p (set_fsm_CommonState upd p)"
  by (simp add: sameFamilies_def set_fsm_CommonState_def)

lemma fsmStateChange_sameFamilies: "sameFamilies p (fsmStateChange ext now nextState p)"
  by (simp add: fsmStateChange_def Let_def sameFamilies_def set_fsm_CommonState_def)

lemma loop_enter_sameFamilies:
  "loop_enter now order p = Inr p' \<Longrightarrow> sameFamilies p p'"
proof -
  assume h: "loop_enter now order p = Inr p'"
  show ?thesis
  proof (cases "isGlobalRib p")
    case True
    then show ?thesis using h by (auto simp: loop_enter_def Let_def sameFamilies_def)
  next
    case False
    show ?thesis
    proof (cases "State (BgpNeighborCommonState (peerConfig p))")
      case BGP_FSM_ESTABLISHED
      define p0 where "p0 = p\<lparr>outgoing := [],
         peerConfig := (peerConfig p)\<lparr>LocalAddress := LocalAddr (fsm p)\<rparr>\<rparr>"
      have s0: "sameFamilies p p0" by (simp add: sameFamilies_def p0_def)
      obtain p1 where e: "establishedLoop order p0 = Inr p1"
        and r: "p' = set_fsm_CommonState
             (\<lambda>c. c\<lparr>Uptime := Unix now, EstablishedCount := EstablishedCount c + 1\<rparr>) p1"
        using h False BGP_FSM_ESTABLISHED
        by (auto simp: loop_enter_def Let_def p0_def split: sum.splits)
      show ?thesis
        using s0 establishedLoop_sameFamilies [OF e] set_fsm_CommonState_sameFamilies r
        by (blast intro: sameFamilies_trans)
    qed (use h False in \<open>auto simp: loop_enter_def Let_def sameFamilies_def set_fsm_CommonState_def\<close>)
  qed
qed

lemma rfMap_configured_sameFamilies:
  "rfMap_configured ext p \<Longrightarrow> sameFamilies p p' \<Longrightarrow> rfMap_configured ext p'"
  by (simp add: rfMap_configured_def sameFamilies_def configuredRFlist_def)

lemma newPeer_rfMap_apply:
  "newPeer_rfMap ext names m f =
     (if f \<in> bgp_GetRouteFamily ext ` set names then Some True else m f)"
  by (induction names arbitrary: m) auto

lemma NewPeer_rfMap_configured:
  "rfMap_configured ext (NewPeer ext now mb g peer peerList isGlobal policyMap)"
  by (simp add: rfMap_configured_def NewPeer_def Let_def setPolicy_def configuredRFlist_def
        newPeer_rfMap_apply)

lemma handleBGPmessage_rfMap_configured:
  assumes "rfMap_configured ext p" and "handleBGPmessage ext now m p = Inr p'"
  shows "rfMap_configured ext p'"
proof (cases "\<exists>body. m = BGP_MSG_OPEN body")
  case True
  then obtain body where m: "m = BGP_MSG_OPEN body" by blast
  obtain q where q: "handleBGPmessage ext now (BGP_MSG_OPEN body) p = Inr q"
    and c: "peerConfig q = peerConfig p"
    and r: "\<forall>f. rfMap q f =
        (if f \<in> advertisedFamilies body
         then (if f \<in> set (configuredRFlist ext p) then Some True else rfMap p f)
         else None)"
    using handleBGPmessage_OPEN [of ext now body p] by blast
  have "q = p'" using q assms(2) m by simp
  then show ?thesis
    using assms(1) c r by (auto simp: rfMap_configured_def configuredRFlist_def split: if_splits)
next
  case False
  then show ?thesis
    using assms handleBGPmessage_other_sameFamilies rfMap_configured_sameFamilies by blast
qed

lemma loop_step_rfMap_configured:
  assumes "rfMap_configured ext p" and "loop_step ext now e p = Inr (p', st)"
  shows "rfMap_configured ext p'"
proof (cases e)
  case Dying
  then have "sameFamilies p p'"
    using assms(2) by (auto simp: loop_step_def sameFamilies_def split: if_splits)
  then show ?thesis using assms(1) rfMap_configured_sameFamilies by blast
next
  case (Incoming fm)
  show ?thesis
  proof (cases fm)
    case (FSM_MSG_STATE_CHANGE nextState)
    then have "p' = fsmStateChange ext now nextState p"
      using assms(2) Incoming by (simp add: loop_step_def)
    then show ?thesis
      using assms(1) fsmStateChange_sameFamilies rfMap_configured_sameFamilies by blast
  next
    case (FSM_MSG_BGP_MESSAGE_MessageError m)
    then have "sameFamilies p p'"
      using assms(2) Incoming by (auto simp: loop_step_def sameFamilies_def)
    then show ?thesis using assms(1) rfMap_configured_sameFamilies by blast
  next
    case (FSM_MSG_BGP_MESSAGE_BGPMessage m)
    then have "handleBGPmessage ext now m p = Inr p'"
      using assms(2) Incoming by (auto simp: loop_step_def split: sum.splits)
    then show ?thesis using assms(1) handleBGPmessage_rfMap_configured by blast
  next
    case FSM_MSG_BGP_MESSAGE_unknown
    then show ?thesis using assms(2) Incoming by (simp add: loop_step_def)
  qed
next
  case (ServerMsg m)
  then have "handleServerMsg ext m p = Inr p'"
    using assms(2) by (auto simp: loop_step_def split: sum.splits)
  then show ?thesis
    using assms(1) handleServerMsg_sameFamilies rfMap_configured_sameFamilies by blast
next
  case (PeerMsg m)
  then have "handlePeerMsg ext m p = Inr p'"
    using assms(2) by (auto simp: loop_step_def split: sum.splits)
  then show ?thesis
    using assms(1) handlePeerMsg_sameFamilies rfMap_configured_sameFamilies by blast
qed

lemma reachable_rfMap_configured: "reachable ext p \<Longrightarrow> rfMap_configured ext p"
proof (induction rule: reachable.induct)
  case (reachable_new now mb g peer peerList isGlobal policyMap)
  show ?case by (rule NewPeer_rfMap_configured)
next
  case (reachable_enter p order now p')
  then show ?case
    using loop_enter_sameFamilies rfMap_configured_sameFamilies by blast
next
  case (reachable_step p now e p' st)
  then show ?case using loop_step_rfMap_configured by blast
next
  case (reachable_env p f out mb)
  then show ?case by (simp add: rfMap_configured_def configuredRFlist_def)
qed

text \<open>
  C1. In every state of a session, the handling of an OPEN returns, and leaves in
  \<open>rfMap\<close> exactly the families that are both in the configured list and among those
  of the multiprotocol capabilities of the OPEN: the keys of \<open>rfMap\<close> are that
  intersection, \<^verbatim>\<open>rfMap[f]\<close> is true for a family \<open>f\<close> exactly when \<open>f\<close> is in both, and the
  configured list is unchanged.
\<close>

theorem open_rfMap_intersection:
  assumes "reachable ext peer"
  shows "\<exists>peer'. handleBGPmessage ext now (BGP_MSG_OPEN body) peer = Inr peer' \<and>
           dom (rfMap peer') = set (configuredRFlist ext peer) \<inter> advertisedFamilies body \<and>
           (\<forall>f. (rfMap peer' f = Some True) =
                  (f \<in> set (configuredRFlist ext peer) \<and> f \<in> advertisedFamilies body)) \<and>
           configuredRFlist ext peer' = configuredRFlist ext peer"
proof -
  have inv: "rfMap_configured ext peer"
    using assms by (rule reachable_rfMap_configured)
  obtain q where q: "handleBGPmessage ext now (BGP_MSG_OPEN body) peer = Inr q"
    and c: "peerConfig q = peerConfig peer"
    and r: "\<forall>f. rfMap q f =
        (if f \<in> advertisedFamilies body
         then (if f \<in> set (configuredRFlist ext peer) then Some True else rfMap peer f)
         else None)"
    using handleBGPmessage_OPEN [of ext now body peer] by blast
  have v: "\<And>f. rfMap q f =
      (if f \<in> set (configuredRFlist ext peer) \<and> f \<in> advertisedFamilies body
       then Some True else None)"
    using inv r by (auto simp: rfMap_configured_def)
  have d: "dom (rfMap q) = set (configuredRFlist ext peer) \<inter> advertisedFamilies body"
    by (auto simp: dom_def v)
  have "configuredRFlist ext q = configuredRFlist ext peer"
    by (simp add: configuredRFlist_def c)
  then show ?thesis using q d v by auto
qed

lemmas sample_defs =
  sample_peer_def NewPeer_def sample_ext_def sample_neighbor_def sample_global_def
  setPolicy_def Let_def NewAdjRib_def sample_sibling_def ip_192_0_2_9_def ip_192_0_2_1_def
  Unix_def BgpNeighborCommonState_zero_def DefaultPolicyType_zero_def

lemmas handler_defs =
  handleBGPmessage_def configuredRFlist_def open_deleteUnadvertised_def
  open_negotiateHoldTime_def AfiSafiToRouteFamily_def sample_open_def
  fsmStateChange_def StateChange_def set_fsm_CommonState_def loop_enter_def FLOP_THRESHOLD_def
  handlePeerMsg_def sendUpdateMsgFromPaths_def AdjRib_UpdateOut_def CreateUpdateMsgFromPaths_def
  GetOutPathList_def IP_Equal_def sample_own_path_def sendPathsToSiblings_def
  UpdatePathAttrs2ByteAs_def

theorem open_rfMap_intersection_witness:
  "reachable sample_ext sample_peer \<and>
   (\<exists>peer'. handleBGPmessage sample_ext 5 (BGP_MSG_OPEN sample_open) sample_peer = Inr peer' \<and>
      dom (rfMap peer') = {65537} \<and>
      rfMap peer' 65537 = Some True \<and> rfMap peer' 131073 \<noteq> Some True)"
proof -
  have r: "reachable sample_ext sample_peer"
    unfolding sample_peer_def by (rule reachable_new)
  have cfg: "set (configuredRFlist sample_ext sample_peer) = {65537, 131073}"
    by (simp add: configuredRFlist_def sample_defs)
  have adv: "advertisedFamilies sample_open = {65537}"
    by (simp add: advertisedFamilies_def sample_open_def AfiSafiToRouteFamily_def)
  show ?thesis
    using r open_rfMap_intersection [OF r, of 5 sample_open]
    by (auto simp: cfg adv)
qed

section \<open>Negotiation of the hold time\<close>

text \<open>
  C6. The handling of an OPEN returns, and the hold time it hands to the FSM is the
  smaller of the hold time of the FSM's neighbor configuration and the hold time of the
  OPEN.
\<close>

theorem open_negotiated_holdtime:
  "\<exists>peer'. handleBGPmessage ext now (BGP_MSG_OPEN body) peer = Inr peer' \<and>
     negotiatedHoldTime (fsm peer') =
       min (Timers_HoldTime (fsm_peerConfig (fsm peer))) (real (unat (HoldTime body)))"
  by (auto simp: handleBGPmessage_def Let_def open_negotiateHoldTime_def min_def
           split: prod.splits)

theorem open_negotiated_holdtime_witness:
  "\<exists>peer'. handleBGPmessage sample_ext 5 (BGP_MSG_OPEN sample_open) sample_peer = Inr peer' \<and>
     negotiatedHoldTime (fsm peer') = 30"
  using open_negotiated_holdtime [of sample_ext 5 sample_open sample_peer]
  by (simp add: sample_defs sample_open_def)

text \<open>\<^verbatim>\<open>NewPeer\<close> gives the FSM the configured hold time.\<close>

lemma NewPeer_HoldTime:
  "Timers_HoldTime (fsm_peerConfig (fsm (NewPeer ext now mb g peer peerList isGlobal policyMap))) =
     Timers_HoldTime peer"
  by (simp add: NewPeer_def Let_def setPolicy_def)

section \<open>An UPDATE that fails validation\<close>

text \<open>
  C7. When the validator rejects an UPDATE against \<open>rfMap\<close>, the handler returns; with a
  code other than zero it has put exactly one NOTIFICATION of that code and subcode at
  the end of \<open>outgoing\<close>, with the code zero \<open>outgoing\<close> is as before; in both cases the
  Adj-RIB and the mailboxes of the siblings are as before.
\<close>

theorem update_validation_failure:
  assumes "bgp_ValidateUpdateMsg ext body (rfMap peer) = Some err"
  shows "\<exists>peer'. handleBGPmessage ext now (BGP_MSG_UPDATE body) peer = Inr peer' \<and>
     outgoing peer' =
       (if TypeCode err \<noteq> 0
        then outgoing peer @ [BGP_MSG_NOTIFICATION (TypeCode err) (SubTypeCode err) (ErrData err)]
        else outgoing peer) \<and>
     adjRib peer' = adjRib peer \<and>
     mailboxes peer' = mailboxes peer"
  using assms by (simp add: handleBGPmessage_def Let_def NewBGPNotificationMessage_def)

theorem update_validation_failure_witness:
  "(\<exists>peer'. handleBGPmessage sample_ext 5 (BGP_MSG_UPDATE sample_malformed) sample_peer = Inr peer' \<and>
      outgoing peer' = [BGP_MSG_NOTIFICATION 3 11 []] \<and>
      adjRib peer' = adjRib sample_peer \<and> mailboxes peer' = mailboxes sample_peer) \<and>
   (\<exists>peer'. handleBGPmessage sample_ext 5 (BGP_MSG_UPDATE sample_ignored) sample_peer = Inr peer' \<and>
      outgoing peer' = [] \<and>
      adjRib peer' = adjRib sample_peer \<and> mailboxes peer' = mailboxes sample_peer)"
proof -
  have m: "bgp_ValidateUpdateMsg sample_ext sample_malformed (rfMap sample_peer) =
             Some \<lparr>TypeCode = 3, SubTypeCode = 11, ErrData = []\<rparr>"
    by (simp add: sample_ext_def sample_malformed_def)
  have i: "bgp_ValidateUpdateMsg sample_ext sample_ignored (rfMap sample_peer) =
             Some \<lparr>TypeCode = 0, SubTypeCode = 0, ErrData = []\<rparr>"
    by (simp add: sample_ext_def sample_ignored_def)
  have o: "outgoing sample_peer = []"
    by (simp add: sample_defs)
  show ?thesis
    using update_validation_failure [OF m, of 5] update_validation_failure [OF i, of 5]
    by (simp add: o)
qed

section \<open>Outbound sending\<close>
















section \<open>Leaving ESTABLISHED\<close>

lemma dropAllInLoop_In:
  "adjRibIn (dropAllInLoop rfs adj) rf = (if rf \<in> set rfs then [] else adjRibIn adj rf)"
  by (induction rfs arbitrary: adj) (auto simp: DropAllIn_def)

lemma dropAllInLoop_Out: "adjRibOut (dropAllInLoop rfs adj) = adjRibOut adj"
  by (induction rfs arbitrary: adj) (auto simp: DropAllIn_def)

lemma sendToSiblings_apply:
  "sendToSiblings pm sib mb c =
     mb c @ replicate (length (filter (\<lambda>ks. peerMsgCh (snd ks) = c) sib)) pm"
proof (induction sib arbitrary: mb)
  case Nil
  show ?case by simp
next
  case (Cons ks sib)
  obtain k s where ks: "ks = (k, s)" by (cases ks)
  show ?case
    by (simp add: ks Cons.IH replicate_app_Cons_same)
qed

lemma sendToSiblings_distinct:
  assumes "distinct (map (\<lambda>ks. peerMsgCh (snd ks)) sib)" and "ks \<in> set sib"
  shows "sendToSiblings pm sib mb (peerMsgCh (snd ks)) = mb (peerMsgCh (snd ks)) @ [pm]"
proof -
  have "length (filter (\<lambda>x. peerMsgCh (snd x) = peerMsgCh (snd ks)) sib) = 1"
    using assms
  proof (induction sib)
    case Nil
    then show ?case by simp
  next
    case (Cons a sib)
    show ?case
    proof (cases "a = ks")
      case True
      have n: "peerMsgCh (snd ks) \<notin> (\<lambda>x. peerMsgCh (snd x)) ` set sib"
        using Cons.prems(1) True by simp
      have "\<forall>x \<in> set sib. peerMsgCh (snd x) \<noteq> peerMsgCh (snd ks)"
      proof (intro ballI notI)
        fix x
        assume "x \<in> set sib" and "peerMsgCh (snd x) = peerMsgCh (snd ks)"
        then have "peerMsgCh (snd ks) \<in> (\<lambda>x. peerMsgCh (snd x)) ` set sib"
          by (metis (mono_tags, lifting) image_eqI)
        then show False using n by contradiction
      qed
      then have "filter (\<lambda>x. peerMsgCh (snd x) = peerMsgCh (snd ks)) sib = []"
        by (simp add: filter_empty_conv)
      then show ?thesis using True by simp
    next
      case False
      then have "ks \<in> set sib" using Cons.prems(2) by simp
      moreover have "peerMsgCh (snd a) \<noteq> peerMsgCh (snd ks)"
        using Cons.prems(1) \<open>ks \<in> set sib\<close> by auto
      ultimately show ?thesis using Cons by simp
    qed
  qed
  then show ?thesis by (simp add: sendToSiblings_apply)
qed

text \<open>
  C5. A state change that leaves ESTABLISHED empties the Adj-RIB-In of every configured
  family and makes one send of PEER-DOWN, with the PeerInfo of this peer, for each
  entry of the sibling directory: a mailbox gets as many copies as entries name it, so
  exactly one when the entries have mailboxes of their own.
\<close>

theorem leaving_established_drops_and_broadcasts:
  assumes "State (BgpNeighborCommonState (peerConfig peer)) = BGP_FSM_ESTABLISHED"
  shows "\<exists>peer'. loop_step ext now (Incoming (FSM_MSG_STATE_CHANGE nextState)) peer =
             Inr (peer', StateChanged) \<and>
     State (BgpNeighborCommonState (peerConfig peer')) = nextState \<and>
     (\<forall>rf \<in> set (configuredRFlist ext peer).
        GetInPathList (adjRib peer') rf = [] \<and> GetInCount (adjRib peer') rf = 0) \<and>
     (\<forall>c. mailboxes peer' c =
        mailboxes peer c @
          replicate (length (filter (\<lambda>ks. peerMsgCh (snd ks) = c) (siblings peer)))
            (PEER_MSG_PEER_DOWN (peerInfo peer))) \<and>
     (distinct (map (\<lambda>ks. peerMsgCh (snd ks)) (siblings peer)) \<longrightarrow>
        (\<forall>ks \<in> set (siblings peer).
           mailboxes peer' (peerMsgCh (snd ks)) =
             mailboxes peer (peerMsgCh (snd ks)) @ [PEER_MSG_PEER_DOWN (peerInfo peer)]))"
proof -
  define peer' where "peer' = fsmStateChange ext now nextState peer"
  have step: "loop_step ext now (Incoming (FSM_MSG_STATE_CHANGE nextState)) peer =
             Inr (peer', StateChanged)"
    by (simp add: loop_step_def peer'_def)
  have st: "State (BgpNeighborCommonState (peerConfig peer')) = nextState"
    by (simp add: peer'_def fsmStateChange_def Let_def set_fsm_CommonState_def)
  have adj: "adjRib peer' = dropAllInLoop (configuredRFlist ext peer) (adjRib peer)"
    using assms
    by (simp add: peer'_def fsmStateChange_def Let_def set_fsm_CommonState_def configuredRFlist_def)
  have mb: "mailboxes peer' =
      sendToSiblings (PEER_MSG_PEER_DOWN (peerInfo peer)) (siblings peer) (mailboxes peer)"
    using assms
    by (simp add: peer'_def fsmStateChange_def Let_def set_fsm_CommonState_def)
  have a: "\<forall>rf \<in> set (configuredRFlist ext peer).
        GetInPathList (adjRib peer') rf = [] \<and> GetInCount (adjRib peer') rf = 0"
    by (simp add: adj GetInPathList_def GetInCount_def dropAllInLoop_In)
  have b: "\<forall>c. mailboxes peer' c =
        mailboxes peer c @
          replicate (length (filter (\<lambda>ks. peerMsgCh (snd ks) = c) (siblings peer)))
            (PEER_MSG_PEER_DOWN (peerInfo peer))"
    by (simp add: mb sendToSiblings_apply)
  have c: "distinct (map (\<lambda>ks. peerMsgCh (snd ks)) (siblings peer)) \<longrightarrow>
        (\<forall>ks \<in> set (siblings peer).
           mailboxes peer' (peerMsgCh (snd ks)) =
             mailboxes peer (peerMsgCh (snd ks)) @ [PEER_MSG_PEER_DOWN (peerInfo peer)])"
    by (simp add: mb sendToSiblings_distinct)
  show ?thesis using step st a b c by blast
qed

theorem leaving_established_drops_and_broadcasts_witness:
  "State (BgpNeighborCommonState (peerConfig sample_established)) = BGP_FSM_ESTABLISHED \<and>
   GetInPathList (adjRib sample_established) 65537 = [sample_path] \<and>
   (\<exists>peer'. loop_step sample_ext 105000000000 (Incoming (FSM_MSG_STATE_CHANGE BGP_FSM_IDLE))
               sample_established = Inr (peer', StateChanged) \<and>
      GetInPathList (adjRib peer') 65537 = [] \<and>
      GetInPathList (adjRib peer') 131073 = [] \<and>
      mailboxes peer' 7 = [PEER_MSG_PEER_DOWN (peerInfo sample_established)] \<and>
      mailboxes peer' 8 = [])"
proof -
  have s: "State (BgpNeighborCommonState (peerConfig sample_established)) = BGP_FSM_ESTABLISHED"
    by (simp add: sample_established_def)
  have i: "GetInPathList (adjRib sample_established) 65537 = [sample_path]"
    by (simp add: sample_established_def GetInPathList_def AdjRib_UpdateIn_def sample_path_def
          sample_defs)
  have c: "configuredRFlist sample_ext sample_established = [65537, 131073]"
    by (simp add: configuredRFlist_def sample_established_def sample_defs)
  have sib: "siblings sample_established = [(''192.0.2.9'', sample_sibling)]"
    by (simp add: sample_established_def sample_defs)
  have mb: "mailboxes sample_established = (\<lambda>c. [])"
    by (simp add: sample_established_def sample_defs)
  show ?thesis
    using s i leaving_established_drops_and_broadcasts
      [OF s, of sample_ext 105000000000 BGP_FSM_IDLE]
    by (auto simp: c sib mb sample_sibling_def)
qed

text \<open>
  The claim C8 as it is written fails: when the administrative state is DOWN, the
  counters are cleared after the test, and a transition out of ESTABLISHED 5 seconds
  after the entry leaves \<open>Flops\<close> at 0, not at one more than before.
\<close>

theorem flops_increment_counterexample:
  "State (BgpNeighborCommonState (peerConfig sample_established_down)) = BGP_FSM_ESTABLISHED \<and>
   Uptime (BgpNeighborCommonState (fsm_peerConfig (fsm sample_established_down))) = 100 \<and>
   Flops (BgpNeighborCommonState (fsm_peerConfig (fsm sample_established_down))) = 3 \<and>
   105000000000 - 100 * 1000000000 < (30 * 1000000000 :: int) \<and>
   time_Sub 105000000000 (time_Unix 100) < FLOP_THRESHOLD \<and>
   Flops (BgpNeighborCommonState (fsm_peerConfig (fsm
     (fsmStateChange sample_ext 105000000000 BGP_FSM_IDLE sample_established_down)))) = 0"
  by (simp add: sample_established_down_def sample_established_def fsmStateChange_def
        FLOP_THRESHOLD_def set_fsm_CommonState_def StateChange_def Let_def sample_defs
        time_Sub_def time_Unix_def int64_def unixToInternal_def maxDuration_def minDuration_def)

lemma int64_in_range:
  "- 9223372036854775808 \<le> x \<Longrightarrow> x < 9223372036854775808 \<Longrightarrow> int64 x = x"
  by (simp add: int64_def)

lemma time_Sub_below_threshold:
  "time_Sub now u < FLOP_THRESHOLD \<longleftrightarrow>
     (now div 1000000000 + unixToInternal - u) * 1000000000 + now mod 1000000000 < FLOP_THRESHOLD"
  by (simp add: time_Sub_def Let_def maxDuration_def minDuration_def FLOP_THRESHOLD_def)

lemma elapsed_since_Uptime:
  assumes "- 9223372036854775808 \<le> uptime" and "uptime < 9223371974719179008"
  shows "time_Sub now (time_Unix uptime) < FLOP_THRESHOLD \<longleftrightarrow>
           now - uptime * 1000000000 < 30 * 1000000000"
proof -
  have u: "time_Unix uptime = uptime + unixToInternal"
    using assms by (simp add: time_Unix_def unixToInternal_def int64_in_range)
  have "(now div 1000000000 + unixToInternal - (uptime + unixToInternal)) * 1000000000
          + now mod 1000000000 = now - uptime * 1000000000"
    by (simp add: algebra_simps)
  then show ?thesis
    by (simp only: time_Sub_below_threshold u) (simp add: FLOP_THRESHOLD_def)
qed

text \<open>
  Above that bound \<^verbatim>\<open>time.Unix\<close> wraps around, the time it returns lies far in the past,
  and no flap is counted although the clock is before \<open>Uptime\<close>.
\<close>

lemma no_flap_when_Unix_wraps:
  "\<not> time_Sub 105000000000 (time_Unix 9223372036854775807) < FLOP_THRESHOLD"
  by (simp add: time_Sub_def time_Unix_def int64_def unixToInternal_def maxDuration_def
        minDuration_def FLOP_THRESHOLD_def Let_def)

text \<open>
  C8, amended. After a state change, \<open>Flops\<close> is 0 when the administrative state is
  DOWN; otherwise it is one more than before (modulo \<open>2^32\<close>, never the same value) when
  the old state is ESTABLISHED and the duration that line 667 computes is below the
  threshold, and unchanged in every other case. For an \<open>Uptime\<close> that \<^verbatim>\<open>time.Now().Unix()\<close>
  has recorded, an \<^verbatim>\<open>int64\<close> below \<open>2^63 - 62135596800\<close>, that duration is below the
  threshold exactly when less than 30 seconds have passed since \<open>Uptime\<close>.
\<close>

theorem flops_increment:
  "Flops (BgpNeighborCommonState (fsm_peerConfig (fsm (fsmStateChange ext now nextState peer)))) =
     (if adminState (fsm peer) = ADMIN_STATE_DOWN then 0
      else if State (BgpNeighborCommonState (peerConfig peer)) = BGP_FSM_ESTABLISHED \<and>
              time_Sub now (time_Unix (Uptime (BgpNeighborCommonState (fsm_peerConfig (fsm peer)))))
                < FLOP_THRESHOLD
           then Flops (BgpNeighborCommonState (fsm_peerConfig (fsm peer))) + 1
           else Flops (BgpNeighborCommonState (fsm_peerConfig (fsm peer)))) \<and>
   Flops (BgpNeighborCommonState (fsm_peerConfig (fsm peer))) + 1 \<noteq>
     Flops (BgpNeighborCommonState (fsm_peerConfig (fsm peer))) \<and>
   (- 9223372036854775808 \<le> Uptime (BgpNeighborCommonState (fsm_peerConfig (fsm peer))) \<and>
    Uptime (BgpNeighborCommonState (fsm_peerConfig (fsm peer))) < 9223371974719179008 \<longrightarrow>
      (time_Sub now (time_Unix (Uptime (BgpNeighborCommonState (fsm_peerConfig (fsm peer)))))
         < FLOP_THRESHOLD) =
      (now - Uptime (BgpNeighborCommonState (fsm_peerConfig (fsm peer))) * 1000000000
         < 30 * 1000000000))"
proof (intro conjI impI)
  show "Flops (BgpNeighborCommonState (fsm_peerConfig (fsm (fsmStateChange ext now nextState peer)))) =
     (if adminState (fsm peer) = ADMIN_STATE_DOWN then 0
      else if State (BgpNeighborCommonState (peerConfig peer)) = BGP_FSM_ESTABLISHED \<and>
              time_Sub now (time_Unix (Uptime (BgpNeighborCommonState (fsm_peerConfig (fsm peer)))))
                < FLOP_THRESHOLD
           then Flops (BgpNeighborCommonState (fsm_peerConfig (fsm peer))) + 1
           else Flops (BgpNeighborCommonState (fsm_peerConfig (fsm peer))))"
    by (simp add: fsmStateChange_def set_fsm_CommonState_def StateChange_def Let_def
          BgpNeighborCommonState_zero_def)
next
  show "Flops (BgpNeighborCommonState (fsm_peerConfig (fsm peer))) + 1 \<noteq>
     Flops (BgpNeighborCommonState (fsm_peerConfig (fsm peer)))"
    by simp
next
  assume "- 9223372036854775808 \<le> Uptime (BgpNeighborCommonState (fsm_peerConfig (fsm peer))) \<and>
    Uptime (BgpNeighborCommonState (fsm_peerConfig (fsm peer))) < 9223371974719179008"
  then show "(time_Sub now (time_Unix (Uptime (BgpNeighborCommonState (fsm_peerConfig (fsm peer)))))
         < FLOP_THRESHOLD) =
      (now - Uptime (BgpNeighborCommonState (fsm_peerConfig (fsm peer))) * 1000000000
         < 30 * 1000000000)"
    using elapsed_since_Uptime by blast
qed

theorem flops_increment_witness:
  "Flops (BgpNeighborCommonState (fsm_peerConfig (fsm
     (fsmStateChange sample_ext 105000000000 BGP_FSM_IDLE sample_established)))) = 4 \<and>
   Flops (BgpNeighborCommonState (fsm_peerConfig (fsm
     (fsmStateChange sample_ext 160000000000 BGP_FSM_IDLE sample_established)))) = 3 \<and>
   Flops (BgpNeighborCommonState (fsm_peerConfig (fsm
     (fsmStateChange sample_ext 105000000000 BGP_FSM_ACTIVE sample_peer)))) = 0 \<and>
   time_Sub 105000000000 (time_Unix 100) < FLOP_THRESHOLD \<and>
   \<not> time_Sub 160000000000 (time_Unix 100) < FLOP_THRESHOLD"
proof -
  have u: "Uptime (BgpNeighborCommonState (fsm_peerConfig (fsm sample_established))) = 100"
    by (simp add: sample_established_def)
  have r: "- 9223372036854775808 \<le> Uptime (BgpNeighborCommonState (fsm_peerConfig (fsm sample_established))) \<and>
    Uptime (BgpNeighborCommonState (fsm_peerConfig (fsm sample_established))) < 9223371974719179008"
    by (simp add: u)
  show ?thesis
    using r flops_increment [of sample_ext 105000000000 BGP_FSM_IDLE sample_established]
      flops_increment [of sample_ext 160000000000 BGP_FSM_IDLE sample_established]
      flops_increment [of sample_ext 105000000000 BGP_FSM_ACTIVE sample_peer]
    by (simp add: u) (simp add: sample_established_def sample_defs)
qed

section \<open>The default verdict\<close>

lemma importLoop_empty: "importLoop [] dflt pList paths = paths @ pList"
  by (induction pList arbitrary: paths) auto

lemma exportLoop_empty: "exportLoop [] dflt pList paths = paths @ pList"
  by (induction pList arbitrary: paths) auto

lemma importLoop_default:
  "\<forall>p \<in> set pList. IsWithdraw p \<or> policies = [] \<or> fst (applyPolicies policies p) \<Longrightarrow>
     importLoop policies dflt pList paths = importLoop policies dflt' pList paths"
proof (induction pList arbitrary: paths)
  case Nil
  show ?case by simp
next
  case (Cons p pList)
  then have rest: "\<And>acc. importLoop policies dflt pList acc = importLoop policies dflt' pList acc"
    by simp
  have here: "IsWithdraw p \<or> policies = [] \<or> fst (applyPolicies policies p)"
    using Cons.prems by simp
  show ?case
    using here
    by (cases "applyPolicies policies p"; cases "IsWithdraw p"; cases "policies = []")
       (simp_all add: rest importLoop_empty exportLoop_empty split: option.splits)
qed

lemma exportLoop_default:
  "\<forall>p \<in> set pList. IsWithdraw p \<or> policies = [] \<or> fst (applyPolicies policies p) \<Longrightarrow>
     exportLoop policies dflt pList paths = exportLoop policies dflt' pList paths"
proof (induction pList arbitrary: paths)
  case Nil
  show ?case by simp
next
  case (Cons p pList)
  then have rest: "\<And>acc. exportLoop policies dflt pList acc = exportLoop policies dflt' pList acc"
    by simp
  have here: "IsWithdraw p \<or> policies = [] \<or> fst (applyPolicies policies p)"
    using Cons.prems by simp
  show ?case
    using here
    by (cases "applyPolicies policies p"; cases "IsWithdraw p"; cases "policies = []")
       (simp_all add: rest importLoop_empty exportLoop_empty split: option.splits)
qed

lemma loops_unmatched:
  assumes "policies \<noteq> []" and "\<not> IsWithdraw p" and "\<not> fst (applyPolicies policies p)"
  shows "importLoop policies dflt [p] [] = (if dflt = DEFAULT_POLICY_TYPE_ACCEPT_ROUTE then [p] else [])"
    and "exportLoop policies dflt [p] [] = (if dflt = DEFAULT_POLICY_TYPE_ACCEPT_ROUTE then [p] else [])"
  using assms by (cases "applyPolicies policies p"; simp)+

text \<open>
  The default verdicts are read by the two policy loops alone: a change of either field
  passes through the other functions of the pipeline.
\<close>

lemma default_update_outward:
  "(p\<lparr>defaultImportPolicy := d\<rparr>)\<lparr>outgoing := out\<rparr> = (p\<lparr>outgoing := out\<rparr>)\<lparr>defaultImportPolicy := d\<rparr>"
  "(p\<lparr>defaultExportPolicy := d\<rparr>)\<lparr>outgoing := out\<rparr> = (p\<lparr>outgoing := out\<rparr>)\<lparr>defaultExportPolicy := d\<rparr>"
  "(p\<lparr>defaultImportPolicy := d\<rparr>)\<lparr>adjRib := a\<rparr> = (p\<lparr>adjRib := a\<rparr>)\<lparr>defaultImportPolicy := d\<rparr>"
  "(p\<lparr>defaultExportPolicy := d\<rparr>)\<lparr>adjRib := a\<rparr> = (p\<lparr>adjRib := a\<rparr>)\<lparr>defaultExportPolicy := d\<rparr>"
  "(p\<lparr>defaultImportPolicy := d\<rparr>)\<lparr>rib := r\<rparr> = (p\<lparr>rib := r\<rparr>)\<lparr>defaultImportPolicy := d\<rparr>"
  "(p\<lparr>defaultImportPolicy := d\<rparr>)\<lparr>mailboxes := mb\<rparr> = (p\<lparr>mailboxes := mb\<rparr>)\<lparr>defaultImportPolicy := d\<rparr>"
  by (cases p; simp)+

lemma sendMessages_defaultImportPolicy:
  "sendMessages msgs (p\<lparr>defaultImportPolicy := d\<rparr>) =
     map_sum id (\<lambda>q. q\<lparr>defaultImportPolicy := d\<rparr>) (sendMessages msgs p)"
proof (induction msgs arbitrary: p)
  case Nil
  show ?case by simp
next
  case (Cons m msgs)
  show ?case
  proof (cases "State (BgpNeighborCommonState (peerConfig p)) \<noteq> BGP_FSM_ESTABLISHED")
    case True
    then show ?thesis using Cons.IH [of p] by simp
  next
    case False
    show ?thesis
    proof (cases m)
      case (BGP_MSG_UPDATE body)
      define m' where "m' = (if capMap p BGP_CAP_FOUR_OCTET_AS_NUMBER = None
         then BGP_MSG_UPDATE (UpdatePathAttrs2ByteAs body) else m)"
      have "sendMessages (m # msgs) (p\<lparr>defaultImportPolicy := d\<rparr>) =
          sendMessages msgs ((p\<lparr>outgoing := outgoing p @ [m']\<rparr>)\<lparr>defaultImportPolicy := d\<rparr>)"
        using False by (simp add: BGP_MSG_UPDATE m'_def Let_def default_update_outward)
      also have "\<dots> = map_sum id (\<lambda>q. q\<lparr>defaultImportPolicy := d\<rparr>)
          (sendMessages msgs (p\<lparr>outgoing := outgoing p @ [m']\<rparr>))"
        by (rule Cons.IH)
      also have "\<dots> = map_sum id (\<lambda>q. q\<lparr>defaultImportPolicy := d\<rparr>) (sendMessages (m # msgs) p)"
        using False by (simp add: BGP_MSG_UPDATE m'_def Let_def)
      finally show ?thesis .
    qed (use False in simp_all)
  qed
qed

lemma sendMessages_defaultExportPolicy:
  "sendMessages msgs (p\<lparr>defaultExportPolicy := d\<rparr>) =
     map_sum id (\<lambda>q. q\<lparr>defaultExportPolicy := d\<rparr>) (sendMessages msgs p)"
proof (induction msgs arbitrary: p)
  case Nil
  show ?case by simp
next
  case (Cons m msgs)
  show ?case
  proof (cases "State (BgpNeighborCommonState (peerConfig p)) \<noteq> BGP_FSM_ESTABLISHED")
    case True
    then show ?thesis using Cons.IH [of p] by simp
  next
    case False
    show ?thesis
    proof (cases m)
      case (BGP_MSG_UPDATE body)
      define m' where "m' = (if capMap p BGP_CAP_FOUR_OCTET_AS_NUMBER = None
         then BGP_MSG_UPDATE (UpdatePathAttrs2ByteAs body) else m)"
      have "sendMessages (m # msgs) (p\<lparr>defaultExportPolicy := d\<rparr>) =
          sendMessages msgs ((p\<lparr>outgoing := outgoing p @ [m']\<rparr>)\<lparr>defaultExportPolicy := d\<rparr>)"
        using False by (simp add: BGP_MSG_UPDATE m'_def Let_def default_update_outward)
      also have "\<dots> = map_sum id (\<lambda>q. q\<lparr>defaultExportPolicy := d\<rparr>)
          (sendMessages msgs (p\<lparr>outgoing := outgoing p @ [m']\<rparr>))"
        by (rule Cons.IH)
      also have "\<dots> = map_sum id (\<lambda>q. q\<lparr>defaultExportPolicy := d\<rparr>) (sendMessages (m # msgs) p)"
        using False by (simp add: BGP_MSG_UPDATE m'_def Let_def)
      finally show ?thesis .
    qed (use False in simp_all)
  qed
qed

lemma sendUpdateMsgFromPaths_defaultImportPolicy:
  "sendUpdateMsgFromPaths ext pList (p\<lparr>defaultImportPolicy := d\<rparr>) =
     map_sum id (\<lambda>q. q\<lparr>defaultImportPolicy := d\<rparr>) (sendUpdateMsgFromPaths ext pList p)"
  by (simp add: sendUpdateMsgFromPaths_def Let_def default_update_outward
        sendMessages_defaultImportPolicy)

lemma sendUpdateMsgFromPaths_empty_chain:
  assumes "exportPolicies p = []"
  shows "sendUpdateMsgFromPaths ext pList p =
     sendMessages
       (CreateUpdateMsgFromPaths
          (egressLoop (rfMap p) (NeighborAddress (peerConfig p))
             (table_CloneAndUpdatePathAttrs ext pList (globalConfig p) (peerConfig p)) []))
       (p\<lparr>adjRib := AdjRib_UpdateOut
            (table_CloneAndUpdatePathAttrs ext pList (globalConfig p) (peerConfig p)) (adjRib p)\<rparr>)"
  by (simp add: sendUpdateMsgFromPaths_def Let_def assms exportLoop_empty)

lemma sendUpdateMsgFromPaths_defaultExportPolicy:
  assumes "\<forall>x \<in> set (table_CloneAndUpdatePathAttrs ext pList (globalConfig p) (peerConfig p)).
             IsWithdraw x \<or> exportPolicies p = [] \<or> fst (applyPolicies (exportPolicies p) x)"
  shows "sendUpdateMsgFromPaths ext pList (p\<lparr>defaultExportPolicy := d\<rparr>) =
     map_sum id (\<lambda>q. q\<lparr>defaultExportPolicy := d\<rparr>) (sendUpdateMsgFromPaths ext pList p)"
proof -
  have same: "exportLoop (exportPolicies p) d
     (table_CloneAndUpdatePathAttrs ext pList (globalConfig p) (peerConfig p)) [] =
     exportLoop (exportPolicies p) (defaultExportPolicy p)
     (table_CloneAndUpdatePathAttrs ext pList (globalConfig p) (peerConfig p)) []"
    using assms by (rule exportLoop_default)
  show ?thesis
    by (simp add: sendUpdateMsgFromPaths_def Let_def same default_update_outward
          sendMessages_defaultExportPolicy)
qed

lemma handlePeerMsg_empty_chain:
  assumes "importPolicies p = []"
  shows "handlePeerMsg ext (PEER_MSG_PATH pList) p =
     (case (if RouteServer_RouteServerClient (peerConfig p) \<or> isGlobalRib p
            then rib_ProcessPaths ext (rib p) pList else (pList, rib p)) of
        (paths', rib') \<Rightarrow>
          if isGlobalRib p then Inr (sendPathsToSiblings paths' (p\<lparr>rib := rib'\<rparr>))
          else sendUpdateMsgFromPaths ext paths' (p\<lparr>rib := rib'\<rparr>))"
  by (simp add: handlePeerMsg_def Let_def assms importLoop_empty split: prod.splits)

lemma handlePeerMsg_defaultImportPolicy:
  assumes "\<forall>x \<in> set pList.
             IsWithdraw x \<or> importPolicies p = [] \<or> fst (applyPolicies (importPolicies p) x)"
  shows "handlePeerMsg ext (PEER_MSG_PATH pList) (p\<lparr>defaultImportPolicy := d\<rparr>) =
     map_sum id (\<lambda>q. q\<lparr>defaultImportPolicy := d\<rparr>) (handlePeerMsg ext (PEER_MSG_PATH pList) p)"
proof -
  have same: "importLoop (importPolicies p) d pList [] =
      importLoop (importPolicies p) (defaultImportPolicy p) pList []"
    using assms by (rule importLoop_default)
  show ?thesis
    by (simp add: handlePeerMsg_def Let_def same default_update_outward sendPathsToSiblings_def
          sendUpdateMsgFromPaths_defaultImportPolicy split: prod.splits)
qed

text \<open>
  C9. With an empty import chain \<^verbatim>\<open>handlePeerMsg\<close> hands the list it is given, unchanged,
  to the shared RIB and on to the export path, and with an empty export chain
  \<^verbatim>\<open>sendUpdateMsgFromPaths\<close> records and sends the list that
  \<^verbatim>\<open>CloneAndUpdatePathAttrs\<close> returns: neither result reads the default verdict. A
  change of the default import or export verdict changes what the handler returns, that
  field of the peer apart, only when some path is not a withdrawal, the chain is not
  empty and no policy of it matches the path; such a path is kept by the policy loop
  exactly when the verdict is accept. The same holds of the two loops alone.
\<close>

theorem empty_chain_ignores_default:
  "(importPolicies peer = [] \<longrightarrow>
      handlePeerMsg ext (PEER_MSG_PATH pList) peer =
        (case (if RouteServer_RouteServerClient (peerConfig peer) \<or> isGlobalRib peer
               then rib_ProcessPaths ext (rib peer) pList else (pList, rib peer)) of
           (paths', rib') \<Rightarrow>
             if isGlobalRib peer then Inr (sendPathsToSiblings paths' (peer\<lparr>rib := rib'\<rparr>))
             else sendUpdateMsgFromPaths ext paths' (peer\<lparr>rib := rib'\<rparr>))) \<and>
   (exportPolicies peer = [] \<longrightarrow>
      sendUpdateMsgFromPaths ext pList peer =
        sendMessages
          (CreateUpdateMsgFromPaths
             (egressLoop (rfMap peer) (NeighborAddress (peerConfig peer))
                (table_CloneAndUpdatePathAttrs ext pList (globalConfig peer) (peerConfig peer)) []))
          (peer\<lparr>adjRib := AdjRib_UpdateOut
               (table_CloneAndUpdatePathAttrs ext pList (globalConfig peer) (peerConfig peer))
               (adjRib peer)\<rparr>)) \<and>
   ((\<forall>x \<in> set pList. IsWithdraw x \<or> importPolicies peer = [] \<or>
        fst (applyPolicies (importPolicies peer) x)) \<longrightarrow>
      handlePeerMsg ext (PEER_MSG_PATH pList) (peer\<lparr>defaultImportPolicy := dflt'\<rparr>) =
        map_sum id (\<lambda>q. q\<lparr>defaultImportPolicy := dflt'\<rparr>)
          (handlePeerMsg ext (PEER_MSG_PATH pList) peer)) \<and>
   ((\<forall>x \<in> set (table_CloneAndUpdatePathAttrs ext pList (globalConfig peer) (peerConfig peer)).
        IsWithdraw x \<or> exportPolicies peer = [] \<or> fst (applyPolicies (exportPolicies peer) x)) \<longrightarrow>
      sendUpdateMsgFromPaths ext pList (peer\<lparr>defaultExportPolicy := dflt'\<rparr>) =
        map_sum id (\<lambda>q. q\<lparr>defaultExportPolicy := dflt'\<rparr>)
          (sendUpdateMsgFromPaths ext pList peer)) \<and>
   importLoop [] dflt pList [] = pList \<and>
   exportLoop [] dflt pList [] = pList \<and>
   ((\<forall>p \<in> set pList. IsWithdraw p \<or> policies = [] \<or> fst (applyPolicies policies p)) \<longrightarrow>
      importLoop policies dflt pList [] = importLoop policies dflt' pList [] \<and>
      exportLoop policies dflt pList [] = exportLoop policies dflt' pList []) \<and>
   (policies \<noteq> [] \<and> \<not> IsWithdraw p \<and> \<not> fst (applyPolicies policies p) \<longrightarrow>
      importLoop policies dflt [p] [] = (if dflt = DEFAULT_POLICY_TYPE_ACCEPT_ROUTE then [p] else []) \<and>
      exportLoop policies dflt [p] [] = (if dflt = DEFAULT_POLICY_TYPE_ACCEPT_ROUTE then [p] else []))"
  using importLoop_default [of pList policies dflt "[]" dflt']
    exportLoop_default [of pList policies dflt "[]" dflt']
    loops_unmatched [of policies p dflt]
    handlePeerMsg_empty_chain [of peer ext pList]
    sendUpdateMsgFromPaths_empty_chain [of peer ext pList]
    handlePeerMsg_defaultImportPolicy [of pList peer ext dflt']
    sendUpdateMsgFromPaths_defaultExportPolicy [of ext pList peer dflt']
  by (simp add: importLoop_empty exportLoop_empty)

theorem empty_chain_ignores_default_witness:
  "importPolicies sample_established_reject = [] \<and>
   exportPolicies sample_established_reject = [] \<and>
   defaultImportPolicy sample_established_reject = DEFAULT_POLICY_TYPE_REJECT_ROUTE \<and>
   defaultExportPolicy sample_established_reject = DEFAULT_POLICY_TYPE_REJECT_ROUTE \<and>
   (\<exists>peer'. handlePeerMsg sample_ext (PEER_MSG_PATH [sample_path]) sample_established_reject =
               Inr peer' \<and>
      GetOutPathList (adjRib peer') 65537 = [sample_path] \<and>
      outgoing peer' = [BGP_MSG_UPDATE \<lparr>UpdatePaths = [sample_path], TwoOctetAS = True\<rparr>]) \<and>
   (\<exists>peer'. sendUpdateMsgFromPaths sample_ext [sample_path] sample_established_reject = Inr peer' \<and>
      GetOutPathList (adjRib peer') 65537 = [sample_path] \<and>
      outgoing peer' = [BGP_MSG_UPDATE \<lparr>UpdatePaths = [sample_path], TwoOctetAS = True\<rparr>]) \<and>
   handlePeerMsg sample_ext (PEER_MSG_PATH [sample_path])
       (sample_established_prepend\<lparr>defaultImportPolicy := DEFAULT_POLICY_TYPE_REJECT_ROUTE\<rparr>) =
     map_sum id (\<lambda>q. q\<lparr>defaultImportPolicy := DEFAULT_POLICY_TYPE_REJECT_ROUTE\<rparr>)
       (handlePeerMsg sample_ext (PEER_MSG_PATH [sample_path]) sample_established_prepend) \<and>
   sendUpdateMsgFromPaths sample_ext [sample_path]
       (sample_established_prepend\<lparr>defaultExportPolicy := DEFAULT_POLICY_TYPE_REJECT_ROUTE\<rparr>) =
     map_sum id (\<lambda>q. q\<lparr>defaultExportPolicy := DEFAULT_POLICY_TYPE_REJECT_ROUTE\<rparr>)
       (sendUpdateMsgFromPaths sample_ext [sample_path] sample_established_prepend) \<and>
   importLoop [] DEFAULT_POLICY_TYPE_REJECT_ROUTE [sample_path] [] = [sample_path] \<and>
   exportLoop [] DEFAULT_POLICY_TYPE_REJECT_ROUTE [sample_path] [] = [sample_path] \<and>
   importLoop [policy_prepend] DEFAULT_POLICY_TYPE_ACCEPT_ROUTE [sample_path] [] =
     importLoop [policy_prepend] DEFAULT_POLICY_TYPE_REJECT_ROUTE [sample_path] [] \<and>
   exportLoop [policy_prepend] DEFAULT_POLICY_TYPE_ACCEPT_ROUTE [sample_path] [] =
     exportLoop [policy_prepend] DEFAULT_POLICY_TYPE_REJECT_ROUTE [sample_path] [] \<and>
   importLoop [policy_nomatch] DEFAULT_POLICY_TYPE_REJECT_ROUTE [sample_path] [] = [] \<and>
   exportLoop [policy_nomatch] DEFAULT_POLICY_TYPE_ACCEPT_ROUTE [sample_path] [] = [sample_path]"
proof -
  have e: "importPolicies sample_established_reject = []"
      "exportPolicies sample_established_reject = []"
      "defaultImportPolicy sample_established_reject = DEFAULT_POLICY_TYPE_REJECT_ROUTE"
      "defaultExportPolicy sample_established_reject = DEFAULT_POLICY_TYPE_REJECT_ROUTE"
    by (simp_all add: sample_established_reject_def sample_established_def sample_defs)
  have hi: "\<forall>x \<in> set [sample_path]. IsWithdraw x \<or> importPolicies sample_established_prepend = [] \<or>
        fst (applyPolicies (importPolicies sample_established_prepend) x)"
    by (simp add: sample_established_prepend_def policy_prepend_def)
  have he: "\<forall>x \<in> set (table_CloneAndUpdatePathAttrs sample_ext [sample_path]
               (globalConfig sample_established_prepend) (peerConfig sample_established_prepend)).
        IsWithdraw x \<or> exportPolicies sample_established_prepend = [] \<or>
        fst (applyPolicies (exportPolicies sample_established_prepend) x)"
    by (simp add: sample_established_prepend_def policy_prepend_def sample_ext_def)
  have m: "\<forall>p \<in> set [sample_path]. IsWithdraw p \<or> [policy_prepend] = [] \<or>
             fst (applyPolicies [policy_prepend] p)"
    by (simp add: policy_prepend_def)
  have n: "[policy_nomatch] \<noteq> [] \<and> \<not> IsWithdraw sample_path \<and>
             \<not> fst (applyPolicies [policy_nomatch] sample_path)"
    by (simp add: policy_nomatch_def sample_path_def)
  have ri: "\<exists>peer'.
      (case (if RouteServer_RouteServerClient (peerConfig sample_established_reject) \<or>
                isGlobalRib sample_established_reject
             then rib_ProcessPaths sample_ext (rib sample_established_reject) [sample_path]
             else ([sample_path], rib sample_established_reject)) of
         (paths', rib') \<Rightarrow>
           if isGlobalRib sample_established_reject
           then Inr (sendPathsToSiblings paths' (sample_established_reject\<lparr>rib := rib'\<rparr>))
           else sendUpdateMsgFromPaths sample_ext paths' (sample_established_reject\<lparr>rib := rib'\<rparr>)) =
        Inr peer' \<and>
      GetOutPathList (adjRib peer') 65537 = [sample_path] \<and>
      outgoing peer' = [BGP_MSG_UPDATE \<lparr>UpdatePaths = [sample_path], TwoOctetAS = True\<rparr>]"
    by (simp add: sample_established_reject_def sample_established_def handler_defs sample_defs
          sample_path_def AdjRib_UpdateIn_def)
  have re: "\<exists>peer'.
      sendMessages
        (CreateUpdateMsgFromPaths
           (egressLoop (rfMap sample_established_reject)
              (NeighborAddress (peerConfig sample_established_reject))
              (table_CloneAndUpdatePathAttrs sample_ext [sample_path]
                 (globalConfig sample_established_reject) (peerConfig sample_established_reject)) []))
        (sample_established_reject\<lparr>adjRib := AdjRib_UpdateOut
             (table_CloneAndUpdatePathAttrs sample_ext [sample_path]
                (globalConfig sample_established_reject) (peerConfig sample_established_reject))
             (adjRib sample_established_reject)\<rparr>) = Inr peer' \<and>
      GetOutPathList (adjRib peer') 65537 = [sample_path] \<and>
      outgoing peer' = [BGP_MSG_UPDATE \<lparr>UpdatePaths = [sample_path], TwoOctetAS = True\<rparr>]"
    by (simp add: sample_established_reject_def sample_established_def handler_defs sample_defs
          sample_path_def AdjRib_UpdateIn_def)
  show ?thesis
    using e hi he m n ri re
      empty_chain_ignores_default [where peer = sample_established_reject and ext = sample_ext
        and pList = "[sample_path]" and policies = "[policy_prepend]"
        and dflt = DEFAULT_POLICY_TYPE_REJECT_ROUTE and dflt' = DEFAULT_POLICY_TYPE_ACCEPT_ROUTE
        and p = sample_path]
      empty_chain_ignores_default [where peer = sample_established_prepend and ext = sample_ext
        and pList = "[sample_path]" and policies = "[policy_prepend]"
        and dflt = DEFAULT_POLICY_TYPE_ACCEPT_ROUTE and dflt' = DEFAULT_POLICY_TYPE_REJECT_ROUTE
        and p = sample_path]
      empty_chain_ignores_default [where peer = sample_established_reject and ext = sample_ext
        and pList = "[sample_path]" and policies = "[policy_nomatch]"
        and dflt = DEFAULT_POLICY_TYPE_REJECT_ROUTE and dflt' = DEFAULT_POLICY_TYPE_REJECT_ROUTE
        and p = sample_path]
      empty_chain_ignores_default [where peer = sample_established_reject and ext = sample_ext
        and pList = "[sample_path]" and policies = "[policy_nomatch]"
        and dflt = DEFAULT_POLICY_TYPE_ACCEPT_ROUTE and dflt' = DEFAULT_POLICY_TYPE_REJECT_ROUTE
        and p = sample_path]
    by simp
qed

section \<open>Introspection\<close>

lemma marshalCounts_sums:
  "marshalCounts adj rfs (a, r, c) =
     (a + of_nat (sum_list (map (GetOutCount adj) rfs)),
      r + of_nat (sum_list (map (GetInCount adj) rfs)),
      c + of_nat (sum_list (map (GetInCount adj) rfs)))"
  by (induction rfs arbitrary: a r c) (simp_all add: algebra_simps)

text \<open>
  C10. When the state of the FSM is not ESTABLISHED, the three counts of the snapshot
  are zero, whatever the Adj-RIB holds. When it is ESTABLISHED, Received and Advertized
  are the sums (in \<^verbatim>\<open>uint32\<close>) of the counts of Adj-RIB-In and Adj-RIB-Out over the
  configured list, and Accepted equals Received.
\<close>

theorem snapshot_counts:
  "(state (fsm peer) \<noteq> BGP_FSM_ESTABLISHED \<longrightarrow>
      Received (MarshalJSON ext peer) = 0 \<and>
      Accepted (MarshalJSON ext peer) = 0 \<and>
      Advertized (MarshalJSON ext peer) = 0) \<and>
   (state (fsm peer) = BGP_FSM_ESTABLISHED \<longrightarrow>
      Received (MarshalJSON ext peer) =
        of_nat (sum_list (map (GetInCount (adjRib peer)) (configuredRFlist ext peer))) \<and>
      Advertized (MarshalJSON ext peer) =
        of_nat (sum_list (map (GetOutCount (adjRib peer)) (configuredRFlist ext peer))) \<and>
      Accepted (MarshalJSON ext peer) = Received (MarshalJSON ext peer))"
  by (simp add: MarshalJSON_def Let_def marshalCounts_sums)

theorem snapshot_counts_witness:
  "state (fsm sample_established) = BGP_FSM_ESTABLISHED \<and>
   Received (MarshalJSON sample_ext sample_established) = 1 \<and>
   Accepted (MarshalJSON sample_ext sample_established) = 1 \<and>
   Advertized (MarshalJSON sample_ext sample_established) = 0 \<and>
   state (fsm (sample_established\<lparr>fsm := (fsm sample_established)\<lparr>state := BGP_FSM_IDLE\<rparr>\<rparr>)) \<noteq>
     BGP_FSM_ESTABLISHED \<and>
   GetInCount (adjRib (sample_established\<lparr>fsm := (fsm sample_established)\<lparr>state := BGP_FSM_IDLE\<rparr>\<rparr>)) 65537 = 1 \<and>
   Received (MarshalJSON sample_ext
     (sample_established\<lparr>fsm := (fsm sample_established)\<lparr>state := BGP_FSM_IDLE\<rparr>\<rparr>)) = 0"
proof -
  have s: "state (fsm sample_established) = BGP_FSM_ESTABLISHED"
    by (simp add: sample_established_def)
  have c: "configuredRFlist sample_ext sample_established = [65537, 131073]"
    by (simp add: configuredRFlist_def sample_established_def sample_defs)
  have i: "GetInCount (adjRib sample_established) 65537 = 1"
      "GetInCount (adjRib sample_established) 131073 = 0"
      "GetOutCount (adjRib sample_established) 65537 = 0"
      "GetOutCount (adjRib sample_established) 131073 = 0"
    by (simp_all add: sample_established_def GetInCount_def GetOutCount_def AdjRib_UpdateIn_def
          sample_path_def sample_defs)
  show ?thesis
    using s snapshot_counts [of sample_established sample_ext]
      snapshot_counts [of "sample_established\<lparr>fsm := (fsm sample_established)\<lparr>state := BGP_FSM_IDLE\<rparr>\<rparr>" sample_ext]
    by (simp add: c i)
qed

section \<open>Split horizon by nexthop\<close>

text \<open>
  The export path itself keeps the split horizon: no UPDATE that
  \<^verbatim>\<open>sendUpdateMsgFromPaths\<close> puts on \<open>outgoing\<close> carries a path whose nexthop is the address
  of the neighbor.
\<close>

lemma egressLoop_set:
  "set (egressLoop rfm a paths acc) =
     set acc \<union> {p \<in> set paths. rfm (GetRouteFamily p) \<noteq> None \<and> \<not> IP_Equal a (GetNexthop p)}"
  by (induction paths arbitrary: acc) (auto simp: Let_def)

lemma sendMessages_appends:
  "sendMessages msgs p = Inr p' \<Longrightarrow>
     \<exists>sent. outgoing p' = outgoing p @ sent \<and>
       (\<Union>m \<in> set sent. messagePaths m) \<subseteq> (\<Union>m \<in> set msgs. messagePaths m)"
proof (induction msgs arbitrary: p)
  case Nil
  then show ?case by simp
next
  case (Cons m msgs)
  show ?case
  proof (cases "State (BgpNeighborCommonState (peerConfig p)) \<noteq> BGP_FSM_ESTABLISHED")
    case True
    then have "sendMessages msgs p = Inr p'" using Cons.prems by simp
    then obtain sent where "outgoing p' = outgoing p @ sent"
      and "(\<Union>m \<in> set sent. messagePaths m) \<subseteq> (\<Union>m \<in> set msgs. messagePaths m)"
      using Cons.IH by blast
    then show ?thesis by auto
  next
    case False
    then obtain body where m: "m = BGP_MSG_UPDATE body"
      using Cons.prems by (cases m) auto
    define m' where "m' = (if capMap p BGP_CAP_FOUR_OCTET_AS_NUMBER = None
         then BGP_MSG_UPDATE (UpdatePathAttrs2ByteAs body) else m)"
    define q where "q = p\<lparr>outgoing := outgoing p @ [m']\<rparr>"
    have mp: "messagePaths m' = messagePaths m"
      by (simp add: m'_def m messagePaths_def UpdatePathAttrs2ByteAs_def)
    have "sendMessages msgs q = Inr p'"
      using Cons.prems False by (auto simp: m q_def m'_def Let_def)
    then obtain sent where s: "outgoing p' = outgoing q @ sent"
      and t: "(\<Union>m \<in> set sent. messagePaths m) \<subseteq> (\<Union>m \<in> set msgs. messagePaths m)"
      using Cons.IH by blast
    have "outgoing p' = outgoing p @ (m' # sent)" using s by (simp add: q_def)
    moreover have "(\<Union>x \<in> set (m' # sent). messagePaths x) \<subseteq>
        (\<Union>x \<in> set (m # msgs). messagePaths x)"
      using t mp by auto
    ultimately show ?thesis by blast
  qed
qed

lemma sendUpdateMsgFromPaths_split_horizon:
  assumes "sendUpdateMsgFromPaths ext pList p = Inr p'"
  shows "\<exists>sent. outgoing p' = outgoing p @ sent \<and>
     (\<forall>m \<in> set sent. \<forall>path \<in> messagePaths m.
        \<not> IP_Equal (NeighborAddress (peerConfig p)) (GetNexthop path))"
proof -
  define paths where "paths = exportLoop (exportPolicies p) (defaultExportPolicy p)
     (table_CloneAndUpdatePathAttrs ext pList (globalConfig p) (peerConfig p)) []"
  define p1 where "p1 = p\<lparr>adjRib := AdjRib_UpdateOut paths (adjRib p)\<rparr>"
  define sendpathList where
    "sendpathList = egressLoop (rfMap p) (NeighborAddress (peerConfig p)) paths []"
  have "sendMessages (CreateUpdateMsgFromPaths sendpathList) p1 = Inr p'"
    using assms
    by (simp add: sendUpdateMsgFromPaths_def Let_def paths_def p1_def sendpathList_def)
  then obtain sent where s: "outgoing p' = outgoing p1 @ sent"
    and t: "(\<Union>m \<in> set sent. messagePaths m) \<subseteq>
             (\<Union>m \<in> set (CreateUpdateMsgFromPaths sendpathList). messagePaths m)"
    using sendMessages_appends by blast
  have "(\<Union>m \<in> set (CreateUpdateMsgFromPaths sendpathList). messagePaths m) = set sendpathList"
    by (auto simp: CreateUpdateMsgFromPaths_def messagePaths_def)
  then have "(\<Union>m \<in> set sent. messagePaths m) \<subseteq>
      {path. \<not> IP_Equal (NeighborAddress (peerConfig p)) (GetNexthop path)}"
    using t by (auto simp: sendpathList_def egressLoop_set)
  then show ?thesis using s by (auto simp: p1_def)
qed

text \<open>
  C3. The egress loop of \<^verbatim>\<open>sendUpdateMsgFromPaths\<close> drops a path whose nexthop is the
  address of the neighbor, but only after the path has been recorded in the
  Adj-RIB-Out. A session: the OPEN of the remote (ipv4-unicast, route refresh), the
  entry into ESTABLISHED, a route of the peer itself that comes back from a sibling
  (no UPDATE is sent), and a ROUTE-REFRESH of the remote, which is answered with an
  UPDATE for that very path.
\<close>

theorem split_horizon_lost_on_route_refresh:
  "\<exists>p1 p2 p3 p4.
     handleBGPmessage sample_ext 5000000000 (BGP_MSG_OPEN sample_open) sample_peer = Inr p1 \<and>
     loop_enter 6000000000 [65537]
       (fsmStateChange sample_ext 6000000000 BGP_FSM_ESTABLISHED p1) = Inr p2 \<and>
     handlePeerMsg sample_ext (PEER_MSG_PATH [sample_own_path]) p2 = Inr p3 \<and>
     outgoing p3 = [] \<and>
     handleBGPmessage sample_ext 9000000000 (BGP_MSG_ROUTE_REFRESH 1 1) p3 = Inr p4 \<and>
     outgoing p4 = [BGP_MSG_UPDATE \<lparr>UpdatePaths = [sample_own_path], TwoOctetAS = True\<rparr>] \<and>
     IP_Equal (NeighborAddress (peerConfig p4)) (GetNexthop sample_own_path)"
  by (auto simp: handler_defs sample_defs)

end
